theory Spec2Isabelle
  imports Complex_Main
begin

section \<open>Multi-timeframe forecasting engine: data model\<close>

text \<open>
  The engine is \<^verbatim>\<open>MultiTimeframePredictor\<close> of \<^verbatim>\<open>backend/advanced_ml_models.py\<close>
  together with the endpoint \<^verbatim>\<open>predict_live_stock\<close> of \<^verbatim>\<open>backend/main.py\<close>.

  Conventions of the embedding:
  \<^item> a float64 that is not missing is a \<open>real\<close> (exact arithmetic; rounding and the
    infinities are outside the model); a cell of a pandas column that may be missing is a
    \<open>real option\<close>, with \<open>None\<close> for NaN;
  \<^item> a date of the daily index is its day number (an \<open>int\<close>), so that
    \<^verbatim>\<open>date + timedelta(days=k)\<close> is \<open>date + k\<close> and the order of the
    \<^verbatim>\<open>%Y-%m-%d\<close> strings is the order of the day numbers;
  \<^item> timeframes, trends and recommendations are the strings of the source.
\<close>

type_synonym cell = "real option"

record bar =
  index :: int
  Open :: real
  High :: real
  Low :: real
  Close :: real
  Volume :: real

type_synonym dataframe = "bar list"

subsection \<open>Python and pandas primitives\<close>

definition dict_get :: "('k \<rightharpoonup> 'v) \<Rightarrow> 'k \<Rightarrow> 'v \<Rightarrow> 'v" where
  \<comment> \<open>\<^verbatim>\<open>d.get(k, default)\<close>\<close>
  "dict_get d k dflt = (case d k of None \<Rightarrow> dflt | Some v \<Rightarrow> v)"

definition py_slice :: "int option \<Rightarrow> int option \<Rightarrow> 'a list \<Rightarrow> 'a list" where
  \<comment> \<open>\<^verbatim>\<open>xs[start:stop]\<close> and \<^verbatim>\<open>.iloc[start:stop]\<close>: a negative bound counts from the
      end, every bound is clipped to the range.\<close>
  "py_slice start stop xs =
     (let n = int (length xs);
          clip = (\<lambda>i. if i < 0 then max 0 (n + i) else min n i);
          a = (case start of None \<Rightarrow> 0 | Some i \<Rightarrow> clip i);
          b = (case stop of None \<Rightarrow> n | Some i \<Rightarrow> clip i)
      in take (nat (b - a)) (drop (nat a) xs))"

definition series_mean :: "real list \<Rightarrow> cell" where
  \<comment> \<open>\<^verbatim>\<open>Series.mean()\<close>: NaN on an empty series.\<close>
  "series_mean xs = (if xs = [] then None else Some (sum_list xs / real (length xs)))"

definition np_sqrt :: "real \<Rightarrow> real" where
  \<comment> \<open>\<^verbatim>\<open>np.sqrt\<close>; it has no code equation, a square root stays as it is under evaluation\<close>
  [code del]: "np_sqrt x = sqrt x"

definition cell_gt :: "cell \<Rightarrow> cell \<Rightarrow> bool" where
  \<comment> \<open>\<^verbatim>\<open>a > b\<close> on floats: false as soon as one side is NaN.\<close>
  "cell_gt a b = (case a of None \<Rightarrow> False | Some x \<Rightarrow> (case b of None \<Rightarrow> False | Some y \<Rightarrow> y < x))"

subsection \<open>Per-horizon tables\<close>

definition valid_timeframes :: "string list" where
  "valid_timeframes = [''1M'', ''6M'', ''1Y'', ''5Y'']"

definition TIMEFRAME_DAYS :: "string \<rightharpoonup> nat" where
  "TIMEFRAME_DAYS = [''1M'' \<mapsto> 30, ''6M'' \<mapsto> 180, ''1Y'' \<mapsto> 365, ''5Y'' \<mapsto> 1825]"

definition get_prediction_points :: "string \<Rightarrow> nat" where
  "get_prediction_points timeframe =
     dict_get [''1M'' \<mapsto> 30, ''6M'' \<mapsto> 26, ''1Y'' \<mapsto> 52, ''5Y'' \<mapsto> 60] timeframe 30"

subsection \<open>Price targets\<close>

record price_targets =
  conservative :: real
  moderate :: real
  aggressive :: real
  conservative_pct :: real
  moderate_pct :: real
  aggressive_pct :: real

definition target_table :: "string \<rightharpoonup> real \<times> real \<times> real" where
  "target_table = [''1M'' \<mapsto> (0.05, 0.10, 0.15), ''6M'' \<mapsto> (0.15, 0.25, 0.40),
                   ''1Y'' \<mapsto> (0.25, 0.50, 0.75), ''5Y'' \<mapsto> (0.50, 1.00, 2.00)]"

definition get_price_targets :: "real \<Rightarrow> string \<Rightarrow> string \<Rightarrow> price_targets" where
  "get_price_targets current_price timeframe trend =
     (case dict_get target_table timeframe (0.10, 0.20, 0.30) of (c0, m0, a0) \<Rightarrow>
        let c = (if trend = ''Bearish'' then c0 * 0.5 else c0);
            m = (if trend = ''Bearish'' then m0 * 0.5 else m0);
            a = (if trend = ''Bearish'' then a0 * 0.5 else a0)
        in \<lparr>conservative = current_price * (1 + c),
            moderate = current_price * (1 + m),
            aggressive = current_price * (1 + a),
            conservative_pct = c * 100,
            moderate_pct = m * 100,
            aggressive_pct = a * 100\<rparr>)"

subsection \<open>Trend analysis\<close>

definition trend_period :: "nat \<Rightarrow> string \<Rightarrow> nat" where
  \<comment> \<open>the comparison period of \<^verbatim>\<open>analyze_trend\<close> for a series of \<open>n\<close> rows\<close>
  "trend_period n timeframe =
     (if timeframe = ''5Y'' then min 200 (n div 2)
      else if timeframe = ''1Y'' then min 100 (n div 2)
      else if timeframe = ''6M'' then min 50 (n div 2)
      else min 20 (n div 2))"

definition analyze_trend :: "dataframe \<Rightarrow> string \<Rightarrow> string" where
  "analyze_trend df timeframe =
     (let period = trend_period (length df) timeframe in
      if length df < period then ''Neutral''
      else
        let closes = map Close df;
            half = (- int period) div 2;
            recent_avg = series_mean (py_slice (Some half) None closes);
            older_avg = series_mean (py_slice (Some (- int period)) (Some half) closes)
        in if cell_gt recent_avg older_avg then ''Bullish'' else ''Bearish'')"

section \<open>Feature engineering\<close>

text \<open>
  The numeric kernels of pandas, numpy and scikit-learn are not code of the repository.
  They are the fields of a \<open>toolkit\<close> that every operation takes as its first argument,
  so that each theorem below holds for whatever these kernels compute:
  \<^item> \<open>indicators ma_periods momentum_period vol_window df\<close> is the block of technical
    indicator columns of \<^verbatim>\<open>prepare_features\<close> (moving averages for the given periods,
    RSI, momentum, rate of change, volatility, volume average and ratio, MACD and its
    signal, Bollinger columns, price ratios), each column named, one cell per row;
  \<^item> \<open>pct_change\<close> is \<^verbatim>\<open>Series.pct_change()\<close> and \<open>series_std\<close> is \<^verbatim>\<open>Series.std()\<close>;
  \<^item> \<open>scaler_fit\<close> is \<^verbatim>\<open>StandardScaler().fit\<close> (its result holds the statistics) and
    \<open>scaler_transform\<close> standardizes one row;
  \<^item> \<open>fit_gradient_boosting\<close> and \<open>fit_random_forest\<close> fit the two regressors with the
    hyper-parameters of the source, \<open>predict_row\<close> predicts for one row and
    \<open>feature_importances\<close> reads \<^verbatim>\<open>feature_importances_\<close>;
  \<^item> \<open>evaluate y_test y_pred\<close> computes the four metrics and \<open>np_std\<close> is \<^verbatim>\<open>np.std\<close>;
  \<^item> \<open>scaler_n_features\<close> and \<open>model_n_features\<close> read \<^verbatim>\<open>n_features_in_\<close>, the number of
    feature columns a fitted scaler or regressor was fitted on. \<^verbatim>\<open>transform\<close> and
    \<^verbatim>\<open>predict\<close> raise \<^verbatim>\<open>ValueError\<close> on a table with another number of columns. Within
    \<^verbatim>\<open>train_model\<close> the tables fitted and transformed have the same columns, so the check
    cannot fail there; \<^verbatim>\<open>predict_future\<close> applies a cached scaler and regressor to the
    table of a series they may not have been fitted on, and the check is part of its model.
\<close>

record eval_metrics =
  rmse :: real
  mae :: real
  r2 :: real
  mape :: real

record ('sc, 'm) toolkit =
  indicators :: "nat list \<Rightarrow> nat \<Rightarrow> nat \<Rightarrow> dataframe \<Rightarrow> (string \<times> cell list) list"
  pct_change :: "real list \<Rightarrow> cell list"
  series_std :: "cell list \<Rightarrow> real"
  scaler_fit :: "real list list \<Rightarrow> 'sc"
  scaler_transform :: "'sc \<Rightarrow> real list \<Rightarrow> real list"
  fit_gradient_boosting :: "real list list \<Rightarrow> real list \<Rightarrow> 'm"
  fit_random_forest :: "real list list \<Rightarrow> real list \<Rightarrow> 'm"
  predict_row :: "'m \<Rightarrow> real list \<Rightarrow> real"
  feature_importances :: "'m \<Rightarrow> real list"
  evaluate :: "real list \<Rightarrow> real list \<Rightarrow> eval_metrics"
  np_std :: "real list \<Rightarrow> real"
  scaler_n_features :: "'sc \<Rightarrow> nat"
  model_n_features :: "'m \<Rightarrow> nat"

fun str_nat :: "nat \<Rightarrow> string" where
  \<comment> \<open>\<^verbatim>\<open>str(n)\<close> for a non-negative integer\<close>
  "str_nat n = (if n < 10 then [''0123456789'' ! n]
                else str_nat (n div 10) @ [''0123456789'' ! (n mod 10)])"

declare str_nat.simps [simp del]

definition shift :: "int \<Rightarrow> cell list \<Rightarrow> cell list" where
  \<comment> \<open>\<^verbatim>\<open>Series.shift(k)\<close>: row \<open>i\<close> receives the value of row \<open>i - k\<close>, NaN when there is none\<close>
  "shift k xs =
     map (\<lambda>i. let j = int i - k in if 0 \<le> j \<and> j < int (length xs) then xs ! nat j else None)
       [0..<length xs]"

definition cell_at :: "cell list \<Rightarrow> nat \<Rightarrow> cell" where
  "cell_at col i = (if i < length col then col ! i else None)"

definition feature_windows :: "string \<Rightarrow> nat list \<times> nat \<times> nat" where
  \<comment> \<open>moving-average periods, momentum period, volatility window\<close>
  "feature_windows timeframe =
     (if timeframe = ''5Y'' then ([20, 50, 100, 200], 20, 60)
      else if timeframe = ''1Y'' then ([10, 20, 50, 100], 15, 30)
      else if timeframe = ''6M'' then ([5, 10, 20, 50], 10, 20)
      else ([3, 5, 10, 20], 5, 10))"

definition lag_columns :: "('sc, 'm) toolkit \<Rightarrow> real list \<Rightarrow> nat \<Rightarrow> (string \<times> cell list) list" where
  "lag_columns tk closes lag_days =
     concat (map (\<lambda>i. [(''close_lag_'' @ str_nat i, shift (int i) (map Some closes)),
                       (''return_lag_'' @ str_nat i, shift (int i) (pct_change tk closes))])
               [1..<lag_days + 1])"

definition excluded_columns :: "string list" where
  "excluded_columns = [''target'', ''Open'', ''High'', ''Low'', ''Close'', ''Volume'']"

record frame =
  columns :: "string list"
  rows :: "(int \<times> real list) list"

type_synonym series = "(int \<times> real) list"

definition all_columns :: "('sc, 'm) toolkit \<Rightarrow> dataframe \<Rightarrow> string \<Rightarrow> (string \<times> cell list) list" where
  \<comment> \<open>the columns that \<^verbatim>\<open>prepare_features\<close> adds to the raw ones, the target apart\<close>
  "all_columns tk df timeframe =
     (case feature_windows timeframe of (ma_periods, momentum_period, vol_window) \<Rightarrow>
        indicators tk (filter (\<lambda>period. period \<le> length df) ma_periods)
          momentum_period vol_window df
        @ lag_columns tk (map Close df) (min 10 (max 3 (length df div 100))))"

definition target_column :: "dataframe \<Rightarrow> string \<Rightarrow> cell list" where
  \<comment> \<open>\<^verbatim>\<open>df['Close'].shift(-target_shift)\<close>\<close>
  "target_column df timeframe =
     shift (- int (dict_get TIMEFRAME_DAYS timeframe 30 div 30)) (map Some (map Close df))"

definition dropna :: "(string \<times> cell list) list \<Rightarrow> cell list \<Rightarrow> nat \<Rightarrow> nat list" where
  \<comment> \<open>The positions of the rows that \<^verbatim>\<open>dropna()\<close> keeps: the raw columns hold no NaN,
      so these are the rows where every added column and the target have a value.\<close>
  "dropna cols target n =
     filter (\<lambda>i. list_all (\<lambda>c. cell_at (snd c) i \<noteq> None) cols \<and> cell_at target i \<noteq> None) [0..<n]"

definition prepare_features :: "('sc, 'm) toolkit \<Rightarrow> dataframe \<Rightarrow> string \<Rightarrow> frame \<times> series" where
  "prepare_features tk df timeframe =
     (let all_cols = all_columns tk df timeframe;
          target = target_column df timeframe;
          kept = dropna all_cols target (length df);
          feature_cols = filter (\<lambda>c. fst c \<notin> set excluded_columns) all_cols
      in (\<lparr>columns = map fst feature_cols,
           rows = map (\<lambda>i. (index (df ! i), map (\<lambda>c. the (cell_at (snd c) i)) feature_cols)) kept\<rparr>,
          map (\<lambda>i. (index (df ! i), the (cell_at target i))) kept))"

section \<open>Training\<close>

record training =
  predictions :: "real list"
  actuals :: "real list"
  prediction_dates :: "int list"
  upper_bound :: "real list"
  lower_bound :: "real list"
  metrics :: eval_metrics
  feature_columns :: "string list"

datatype train_result = Insufficient string eval_metrics | Trained training

record ('sc, 'm) predictor =
  models :: "string \<rightharpoonup> 'm"
  scalers :: "string \<rightharpoonup> 'sc"
  feature_importance :: "string \<rightharpoonup> (string \<times> real) list"

definition min_samples :: "string \<rightharpoonup> nat" where
  "min_samples = [''1M'' \<mapsto> 30, ''6M'' \<mapsto> 60, ''1Y'' \<mapsto> 100, ''5Y'' \<mapsto> 200]"

definition model_key :: "string \<Rightarrow> string \<Rightarrow> string" where
  "model_key symbol timeframe = symbol @ ''_'' @ timeframe"

definition split_idx :: "nat \<Rightarrow> nat" where
  \<comment> \<open>\<^verbatim>\<open>int(len(X) * 0.8)\<close>\<close>
  "split_idx n = nat \<lfloor>real n * 0.8\<rfloor>"

definition chrono_split :: "'a list \<Rightarrow> 'a list \<times> 'a list" where
  \<comment> \<open>\<^verbatim>\<open>X[:split_idx], X[split_idx:]\<close>\<close>
  "chrono_split xs = (take (split_idx (length xs)) xs, drop (split_idx (length xs)) xs)"

definition insufficient_message :: "string \<Rightarrow> nat \<Rightarrow> nat \<Rightarrow> string" where
  "insufficient_message timeframe needed got =
     ''Insufficient data for '' @ timeframe @ '' training. Need at least '' @ str_nat needed
       @ '' samples, got '' @ str_nat got"

definition sort_descending :: "(string \<times> real) list \<Rightarrow> (string \<times> real) list" where
  \<comment> \<open>\<^verbatim>\<open>list.sort(key=lambda x: x[1], reverse=True)\<close>: stable, equal keys keep their order\<close>
  "sort_descending xs = rev (sort_key snd (rev xs))"

definition train_model ::
  "('sc, 'm) toolkit \<Rightarrow> ('sc, 'm) predictor \<Rightarrow> dataframe \<Rightarrow> string \<Rightarrow> string
     \<Rightarrow> train_result \<times> ('sc, 'm) predictor" where
  "train_model tk s df symbol timeframe =
     (case prepare_features tk df timeframe of (X, y) \<Rightarrow>
        if length (rows X) < dict_get min_samples timeframe 50 then
          (Insufficient
             (insufficient_message timeframe (dict_get min_samples timeframe 50) (length (rows X)))
             \<lparr>rmse = 0, mae = 0, r2 = 0, mape = 0\<rparr>, s)
        else
          (case chrono_split (rows X) of (X_train, X_test) \<Rightarrow>
           case chrono_split y of (y_train, y_test) \<Rightarrow>
             let scaler = scaler_fit tk (map snd X_train);
                 X_train_scaled = map (scaler_transform tk scaler) (map snd X_train);
                 X_test_scaled = map (scaler_transform tk scaler) (map snd X_test);
                 model =
                   (if timeframe \<in> set [''5Y'', ''1Y'']
                    then fit_gradient_boosting tk X_train_scaled (map snd y_train)
                    else fit_random_forest tk X_train_scaled (map snd y_train));
                 y_pred = map (predict_row tk model) X_test_scaled;
                 scores = evaluate tk (map snd y_test) y_pred;
                 key = model_key symbol timeframe;
                 ranking = sort_descending (zip (columns X) (feature_importances tk model));
                 s' = s\<lparr>models := (models s)(key \<mapsto> model),
                        scalers := (scalers s)(key \<mapsto> scaler),
                        feature_importance := (feature_importance s)(key \<mapsto> ranking)\<rparr>;
                 std_dev = np_std tk (map2 (-) (map snd y_test) y_pred);
                 test_dates =
                   py_slice (Some (int (split_idx (length (rows X)))))
                     (Some (int (split_idx (length (rows X)) + length y_test))) (map index df)
             in (Trained
                   \<lparr>predictions = y_pred,
                    actuals = map snd y_test,
                    prediction_dates = test_dates,
                    upper_bound = map (\<lambda>p. p + 2 * std_dev) y_pred,
                    lower_bound = map (\<lambda>p. p - 2 * std_dev) y_pred,
                    metrics = scores,
                    feature_columns = columns X\<rparr>, s')))"

section \<open>Forecasting\<close>

datatype py_error = KeyError string | IndexError | ValueError string

definition n_features_message :: "nat \<Rightarrow> string \<Rightarrow> nat \<Rightarrow> string" where
  \<comment> \<open>the text of the \<^verbatim>\<open>ValueError\<close> of scikit-learn for a table with \<open>found\<close> columns
      given to an estimator fitted on \<open>expected\<close> columns\<close>
  "n_features_message found estimator expected =
     ''X has '' @ str_nat found @ '' features, but '' @ estimator @ '' is expecting ''
       @ str_nat expected @ '' features as input.''"

definition regressor_name :: "string \<Rightarrow> string" where
  \<comment> \<open>the class of the regressor that \<^verbatim>\<open>train_model\<close> caches for a timeframe\<close>
  "regressor_name timeframe =
     (if timeframe \<in> set [''5Y'', ''1Y''] then ''GradientBoostingRegressor''
      else ''RandomForestRegressor'')"

record forecast_point =
  date :: int
  daysAhead :: nat
  predicted :: real
  upperBound :: real
  lowerBound :: real
  confidence :: real

definition iloc :: "'a list \<Rightarrow> int \<Rightarrow> py_error + 'a" where
  \<comment> \<open>\<^verbatim>\<open>xs[i]\<close> and \<^verbatim>\<open>.iloc[i]\<close> for one position\<close>
  "iloc xs i =
     (let pos = (if i < 0 then int (length xs) + i else i)
      in if 0 \<le> pos \<and> pos < int (length xs) then Inr (xs ! nat pos) else Inl IndexError)"

definition confidence_score :: "nat \<Rightarrow> nat \<Rightarrow> real" where
  \<comment> \<open>\<^verbatim>\<open>max(0, 100 - (days_ahead / total_days * 50))\<close>\<close>
  "confidence_score days_ahead total_days =
     max 0 (100 - (real days_ahead / real total_days * 50))"

definition trend_rate :: "dataframe \<Rightarrow> py_error + real" where
  \<comment> \<open>\<^verbatim>\<open>recent_trend\<close> of the 1Y and 5Y forecasts. The division is by zero only for a
      series of at most one row, for which the feature table is empty and the forecast
      loop is not reached.\<close>
  "trend_rate df =
     (let trend_days = min 90 (length df div 2) in
      case iloc (map Close df) (-1) of Inl e \<Rightarrow> Inl e
      | Inr last_close \<Rightarrow>
          (case iloc (map Close df) (- int trend_days) of Inl e \<Rightarrow> Inl e
           | Inr old_close \<Rightarrow> Inr ((last_close - old_close) / real trend_days)))"

definition forecast_at ::
  "string \<Rightarrow> nat \<Rightarrow> nat \<Rightarrow> int \<Rightarrow> real \<Rightarrow> real \<Rightarrow> real \<Rightarrow> real \<Rightarrow> nat \<Rightarrow> forecast_point" where
  \<comment> \<open>the body of the forecast loop for the loop variable \<open>i\<close>\<close>
  "forecast_at timeframe total_days days_per_point last_date current_price daily_vol base
       recent_trend i =
     (let days_ahead = (i + 1) * days_per_point;
          prediction_date = last_date + int days_ahead;
          predicted_price =
            (if timeframe \<in> set [''1Y'', ''5Y''] then base + recent_trend * real days_ahead
             else base);
          time_factor = np_sqrt (real days_ahead / 30);
          std_dev = daily_vol * current_price * time_factor
      in \<lparr>date = prediction_date,
          daysAhead = days_ahead,
          predicted = predicted_price,
          upperBound = predicted_price + 2 * std_dev,
          lowerBound = predicted_price - 2 * std_dev,
          confidence = confidence_score days_ahead total_days\<rparr>)"

definition predict_future ::
  "('sc, 'm) toolkit \<Rightarrow> ('sc, 'm) predictor \<Rightarrow> dataframe \<Rightarrow> string \<Rightarrow> string
     \<Rightarrow> (py_error + forecast_point list) \<times> ('sc, 'm) predictor" where
  \<comment> \<open>The model output for the last feature row and the trend rate do not depend on the
      loop variable; they are computed once, before the loop. \<^verbatim>\<open>scaler.transform\<close> and
      \<^verbatim>\<open>model.predict\<close> raise when the table has not the number of columns they were
      fitted on.\<close>
  "predict_future tk s df symbol timeframe =
     (let key = model_key symbol timeframe;
          s1 = (if models s key = None then snd (train_model tk s df symbol timeframe) else s)
      in (case models s1 key of
            None \<Rightarrow> (Inr [], s1)
          | Some model \<Rightarrow>
         (case scalers s1 key of
            None \<Rightarrow> (Inl (KeyError key), s1)
          | Some scaler \<Rightarrow>
         (case prepare_features tk df timeframe of (X, y) \<Rightarrow>
            (if length (rows X) = 0 then (Inr [], s1)
             else if length (columns X) \<noteq> scaler_n_features tk scaler then
               (Inl (ValueError (n_features_message (length (columns X)) ''StandardScaler''
                                   (scaler_n_features tk scaler))), s1)
             else
         (let last_features = map snd (py_slice (Some (-1)) None (rows X));
              last_features_scaled = map (scaler_transform tk scaler) last_features
          in
         (case TIMEFRAME_DAYS timeframe of
            None \<Rightarrow> (Inl (KeyError timeframe), s1)
          | Some total_days \<Rightarrow>
         (let prediction_points = get_prediction_points timeframe;
              days_per_point = total_days div prediction_points
          in
         (case iloc (map index df) (-1) of
            Inl e \<Rightarrow> (Inl e, s1)
          | Inr last_date \<Rightarrow>
         (case iloc (map Close df) (-1) of
            Inl e \<Rightarrow> (Inl e, s1)
          | Inr current_price \<Rightarrow>
         (let daily_vol = series_std tk (pct_change tk (map Close df))
          in
            (if length (columns X) \<noteq> model_n_features tk model then
               (Inl (ValueError (n_features_message (length (columns X)) (regressor_name timeframe)
                                   (model_n_features tk model))), s1)
             else
         (case iloc (map (predict_row tk model) last_features_scaled) 0 of
            Inl e \<Rightarrow> (Inl e, s1)
          | Inr base \<Rightarrow>
         (case (if timeframe \<in> set [''1Y'', ''5Y''] then trend_rate df else Inr 0) of
            Inl e \<Rightarrow> (Inl e, s1)
          | Inr recent_trend \<Rightarrow>
              (Inr (map (forecast_at timeframe total_days days_per_point last_date
                          current_price daily_vol base recent_trend)
                      [0..<prediction_points]), s1)))))))))))))))"

section \<open>The prediction endpoint\<close>

datatype http_error = HTTPException nat string

record provider =
  is_available :: bool
  get_stock_data :: "string \<Rightarrow> string \<Rightarrow> dataframe option"

record response =
  resp_symbol :: string
  resp_timeframe :: string
  currentPrice :: real
  resp_predictions :: "forecast_point list"
  modelMetrics :: eval_metrics
  resp_trend :: string
  priceTargets :: price_targets
  recommendation :: string
  resp_confidence :: string
  predictionPoints :: nat

definition period_map :: "string \<rightharpoonup> string" where
  "period_map = [''1M'' \<mapsto> ''6mo'', ''6M'' \<mapsto> ''2y'', ''1Y'' \<mapsto> ''5y'', ''5Y'' \<mapsto> ''max'']"

definition py_error_str :: "py_error \<Rightarrow> string" where
  "py_error_str e = (case e of KeyError k \<Rightarrow> [CHR 0x27] @ k @ [CHR 0x27]
                     | IndexError \<Rightarrow> ''single positional indexer is out-of-bounds''
                     | ValueError msg \<Rightarrow> msg)"

definition recommend :: "string \<Rightarrow> real \<Rightarrow> string \<times> string" where
  \<comment> \<open>the recommendation and its confidence, from the trend and the R2 of the training\<close>
  "recommend trend r2_score =
     (if trend = ''Bullish'' \<and> r2_score > 0.5 then (''BUY'', ''High'')
      else if trend = ''Bullish'' then (''BUY'', ''Medium'')
      else if trend = ''Bearish'' \<and> r2_score > 0.5 then (''SELL'', ''High'')
      else (''HOLD'', ''Low''))"

definition predict_live_stock ::
  "('sc, 'm) toolkit \<Rightarrow> provider \<Rightarrow> ('sc, 'm) predictor \<Rightarrow> string \<Rightarrow> string
     \<Rightarrow> (http_error + response) \<times> ('sc, 'm) predictor" where
  \<comment> \<open>An exception other than \<^verbatim>\<open>HTTPException\<close> becomes status 500 with its text.\<close>
  "predict_live_stock tk sp s symbol timeframe =
     (if timeframe \<notin> set valid_timeframes then
        (Inl (HTTPException 400 ''Timeframe must be 1M, 6M, 1Y, or 5Y''), s)
      else if \<not> is_available sp then
        (Inl (HTTPException 503 ''Static data not available''), s)
      else
        case period_map timeframe of
          None \<Rightarrow> (Inl (HTTPException 500 (py_error_str (KeyError timeframe))), s)
        | Some period \<Rightarrow>
        (case get_stock_data sp symbol period of
           None \<Rightarrow> (Inl (HTTPException 404 (''No data found for '' @ symbol)), s)
         | Some df \<Rightarrow>
           if length df = 0 then (Inl (HTTPException 404 (''No data found for '' @ symbol)), s)
           else
             (case train_model tk s df symbol timeframe of
                (Insufficient msg zero, s1) \<Rightarrow> (Inl (HTTPException 400 msg), s1)
              | (Trained training_result, s1) \<Rightarrow>
                (case predict_future tk s1 df symbol timeframe of
                   (Inl e, s2) \<Rightarrow> (Inl (HTTPException 500 (py_error_str e)), s2)
                 | (Inr future_predictions, s2) \<Rightarrow>
                   let trend = analyze_trend df timeframe in
                   (case iloc (map Close df) (-1) of
                      Inl e \<Rightarrow> (Inl (HTTPException 500 (py_error_str e)), s2)
                    | Inr current_price \<Rightarrow>
                        (Inr \<lparr>resp_symbol = symbol,
                              resp_timeframe = timeframe,
                              currentPrice = current_price,
                              resp_predictions = future_predictions,
                              modelMetrics = metrics training_result,
                              resp_trend = trend,
                              priceTargets = get_price_targets current_price timeframe trend,
                              recommendation = fst (recommend trend (r2 (metrics training_result))),
                              resp_confidence = snd (recommend trend (r2 (metrics training_result))),
                              predictionPoints = length future_predictions\<rparr>, s2))))))"

section \<open>A toolkit in exact arithmetic, for running the model on examples\<close>

text \<open>
  The examples below need one concrete toolkit. \<open>baseline_toolkit\<close> computes in exact
  arithmetic: of the indicator block it keeps the columns that are plain moving
  averages and differences (a rolling mean is missing on the first \<open>window - 1\<close> rows, as
  in pandas), a percent change is missing on the first row, the scaler holds the column
  means and population standard deviations, and the regressor is the mean of the training
  targets, kept with the number of columns of the table it was fitted on. \<open>rising_series n\<close> is the series of \<open>n\<close> daily rows whose close rises by one
  each day, at constant volume.
\<close>

definition rolling_mean :: "nat \<Rightarrow> real list \<Rightarrow> cell list" where
  "rolling_mean w xs =
     map (\<lambda>i. if i + 1 < w then None
              else Some (sum_list (take w (drop (i + 1 - w) xs)) / real w)) [0..<length xs]"

definition diff_by :: "nat \<Rightarrow> real list \<Rightarrow> cell list" where
  "diff_by k xs = map (\<lambda>i. if i < k then None else Some (xs ! i - xs ! (i - k))) [0..<length xs]"

definition exact_pct_change :: "real list \<Rightarrow> cell list" where
  "exact_pct_change xs =
     map (\<lambda>i. if i = 0 then None
              else if xs ! (i - 1) = 0 then None
              else Some (xs ! i / xs ! (i - 1) - 1)) [0..<length xs]"

definition exact_indicators ::
  "nat list \<Rightarrow> nat \<Rightarrow> nat \<Rightarrow> dataframe \<Rightarrow> (string \<times> cell list) list" where
  "exact_indicators ma_periods momentum_period vol_window df =
     map (\<lambda>period. (''ma'' @ str_nat period, rolling_mean period (map Close df))) ma_periods
     @ [(''momentum'', diff_by momentum_period (map Close df)),
        (''volume_ma'', rolling_mean 20 (map Volume df)),
        (''bb_middle'', rolling_mean 20 (map Close df))]"

definition list_mean :: "real list \<Rightarrow> real" where
  "list_mean xs = sum_list xs / real (length xs)"

definition population_std :: "real list \<Rightarrow> real" where
  "population_std xs = np_sqrt (list_mean (map (\<lambda>x. (x - list_mean xs)\<^sup>2) xs))"

definition column :: "real list list \<Rightarrow> nat \<Rightarrow> real list" where
  "column X j = map (\<lambda>row. row ! j) X"

definition standard_fit :: "real list list \<Rightarrow> real list \<times> real list" where
  "standard_fit X =
     (case X of [] \<Rightarrow> ([], [])
      | row # _ \<Rightarrow>
          (map (\<lambda>j. list_mean (column X j)) [0..<length row],
           map (\<lambda>j. if population_std (column X j) = 0 then 1 else population_std (column X j))
             [0..<length row]))"

definition standard_transform :: "real list \<times> real list \<Rightarrow> real list \<Rightarrow> real list" where
  "standard_transform sc row = map (\<lambda>(x, m, d). (x - m) / d) (zip row (zip (fst sc) (snd sc)))"

definition exact_metrics :: "real list \<Rightarrow> real list \<Rightarrow> eval_metrics" where
  "exact_metrics y_test y_pred =
     (let err = map2 (-) y_test y_pred
      in \<lparr>rmse = np_sqrt (list_mean (map (\<lambda>e. e\<^sup>2) err)),
          mae = list_mean (map abs err),
          r2 = 1 - sum_list (map (\<lambda>e. e\<^sup>2) err)
                     / sum_list (map (\<lambda>v. (v - list_mean y_test)\<^sup>2) y_test),
          mape = list_mean (map2 (\<lambda>e v. \<bar>e / v\<bar>) err y_test) * 100\<rparr>)"

definition baseline_toolkit :: "(real list \<times> real list, nat \<times> real) toolkit" where
  "baseline_toolkit =
     \<lparr>indicators = exact_indicators,
      pct_change = exact_pct_change,
      series_std = (\<lambda>cs. population_std (map the (filter (\<lambda>c. c \<noteq> None) cs))),
      scaler_fit = standard_fit,
      scaler_transform = standard_transform,
      fit_gradient_boosting = (\<lambda>X y. (length (hd X), list_mean y)),
      fit_random_forest = (\<lambda>X y. (length (hd X), list_mean y)),
      predict_row = (\<lambda>m row. snd m),
      feature_importances = (\<lambda>m. replicate (fst m) (1 / real (fst m))),
      evaluate = exact_metrics,
      np_std = population_std,
      scaler_n_features = (\<lambda>sc. length (fst sc)),
      model_n_features = fst\<rparr>"

definition rising_series :: "nat \<Rightarrow> dataframe" where
  "rising_series n =
     map (\<lambda>i. \<lparr>index = int i, Open = 100 + real i, High = 101 + real i, Low = 99 + real i,
               Close = 100 + real i, Volume = 1000\<rparr>) [0..<n]"

definition empty_predictor :: "(real list \<times> real list, nat \<times> real) predictor" where
  "empty_predictor = \<lparr>models = Map.empty, scalers = Map.empty, feature_importance = Map.empty\<rparr>"

definition trained_6M :: "(real list \<times> real list, nat \<times> real) predictor" where
  \<comment> \<open>the predictor after one 6M training on 120 rows of the rising series\<close>
  "trained_6M = snd (train_model baseline_toolkit empty_predictor (rising_series 120) ''ACME'' ''6M'')"

definition sample_provider :: provider where
  "sample_provider =
     \<lparr>is_available = True,
      get_stock_data = (\<lambda>symbol period. if symbol = ''ACME'' then Some (rising_series 50) else None)\<rparr>"

section \<open>Structure of the engineered table\<close>

lemma split_idx_eq: "split_idx n = 4 * n div 5"
proof -
  have "real n * 0.8 = real (4 * n) / real 5" by simp
  then have "\<lfloor>real n * 0.8\<rfloor> = \<lfloor>real (4 * n) / real 5\<rfloor>" by (rule arg_cong)
  also have "\<dots> = int (4 * n div 5)" by (simp only: floor_divide_of_nat_eq)
  finally show ?thesis by (simp add: split_idx_def)
qed

lemma split_idx_le: "split_idx n \<le> n"
  by (simp add: split_idx_eq)

lemma dropna_sorted: "sorted_wrt (<) (dropna cols target n)"
  by (simp add: dropna_def sorted_wrt_filter)

lemma dropna_bound: "i \<in> set (dropna cols target n) \<Longrightarrow> i < n"
  by (simp add: dropna_def)

lemma dropna_distinct: "distinct (dropna cols target n)"
  by (simp add: dropna_def)

lemma dropna_length: "length (dropna cols target n) \<le> n"
  using length_filter_le [of _ "[0..<n]"] by (simp add: dropna_def)

lemma rows_prepare:
  "rows (fst (prepare_features tk df timeframe)) =
     map (\<lambda>i. (index (df ! i),
                map (\<lambda>c. the (cell_at (snd c) i))
                  (filter (\<lambda>c. fst c \<notin> set excluded_columns) (all_columns tk df timeframe))))
       (dropna (all_columns tk df timeframe) (target_column df timeframe) (length df))"
  by (simp add: prepare_features_def Let_def)

lemma series_prepare:
  "snd (prepare_features tk df timeframe) =
     map (\<lambda>i. (index (df ! i), the (cell_at (target_column df timeframe) i)))
       (dropna (all_columns tk df timeframe) (target_column df timeframe) (length df))"
  by (simp add: prepare_features_def Let_def)

lemma index_rows:
  "map fst (rows (fst (prepare_features tk df timeframe))) =
     map (\<lambda>i. index (df ! i))
       (dropna (all_columns tk df timeframe) (target_column df timeframe) (length df))"
  by (simp add: rows_prepare comp_def)

lemma index_series:
  "map fst (snd (prepare_features tk df timeframe)) =
     map fst (rows (fst (prepare_features tk df timeframe)))"
  by (simp add: rows_prepare series_prepare comp_def)

lemma length_rows:
  "length (rows (fst (prepare_features tk df timeframe))) =
     length (dropna (all_columns tk df timeframe) (target_column df timeframe) (length df))"
  by (simp add: rows_prepare)

lemma length_series:
  "length (snd (prepare_features tk df timeframe)) =
     length (rows (fst (prepare_features tk df timeframe)))"
  by (simp add: rows_prepare series_prepare)

lemma strict_positions:
  assumes "sorted_wrt (<) (ks :: nat list)" and "0 \<notin> set ks" and "j < length ks"
  shows "j < ks ! j"
  using assms(3)
proof (induction j)
  case 0
  then have "ks ! 0 \<in> set ks" by simp
  with assms(2) show ?case by (metis gr0I)
next
  case (Suc j)
  then have "j < ks ! j" by simp
  moreover have "ks ! j < ks ! Suc j"
    using assms(1) Suc.prems by (simp add: sorted_wrt_nth_less)
  ultimately show ?case by linarith
qed

section \<open>Training: results and slices\<close>

lemma min_samples_ge: "30 \<le> dict_get min_samples timeframe 50"
  by (simp add: dict_get_def min_samples_def)

lemma train_model_insufficient:
  assumes "length (rows (fst (prepare_features tk df timeframe))) < dict_get min_samples timeframe 50"
  shows "train_model tk s df symbol timeframe =
           (Insufficient
              (insufficient_message timeframe (dict_get min_samples timeframe 50)
                 (length (rows (fst (prepare_features tk df timeframe)))))
              \<lparr>rmse = 0, mae = 0, r2 = 0, mape = 0\<rparr>, s)"
  using assms by (simp add: train_model_def case_prod_beta)

lemma train_model_trained:
  assumes "\<not> length (rows (fst (prepare_features tk df timeframe))) < dict_get min_samples timeframe 50"
  shows "train_model tk s df symbol timeframe =
     (let X = rows (fst (prepare_features tk df timeframe));
          y = snd (prepare_features tk df timeframe);
          k = split_idx (length X);
          scaler = scaler_fit tk (map snd (take k X));
          model = (if timeframe \<in> set [''5Y'', ''1Y''] then fit_gradient_boosting tk
                   else fit_random_forest tk)
                    (map (scaler_transform tk scaler) (map snd (take k X))) (map snd (take k y));
          y_pred = map (predict_row tk model) (map (scaler_transform tk scaler) (map snd (drop k X)));
          std_dev = np_std tk (map2 (-) (map snd (drop k y)) y_pred);
          key = model_key symbol timeframe
      in (Trained
            \<lparr>predictions = y_pred,
             actuals = map snd (drop k y),
             prediction_dates =
               py_slice (Some (int k)) (Some (int (k + length (drop k y)))) (map index df),
             upper_bound = map (\<lambda>p. p + 2 * std_dev) y_pred,
             lower_bound = map (\<lambda>p. p - 2 * std_dev) y_pred,
             metrics = evaluate tk (map snd (drop k y)) y_pred,
             feature_columns = columns (fst (prepare_features tk df timeframe))\<rparr>,
          s\<lparr>models := (models s)(key \<mapsto> model),
            scalers := (scalers s)(key \<mapsto> scaler),
            feature_importance := (feature_importance s)
              (key \<mapsto> sort_descending
                 (zip (columns (fst (prepare_features tk df timeframe)))
                    (feature_importances tk model)))\<rparr>))"
  using assms length_series [of tk df timeframe]
  by (simp add: train_model_def chrono_split_def Let_def case_prod_beta)


lemma index_rows_sorted:
  assumes "sorted_wrt (<) (map index df)"
  shows "sorted_wrt (<) (map fst (rows (fst (prepare_features tk df timeframe))))"
proof -
  let ?ks = "dropna (all_columns tk df timeframe) (target_column df timeframe) (length df)"
  have "index (df ! i) < index (df ! j)" if "i < j" "j < length df" for i j
    using assms that by (simp add: sorted_wrt_iff_nth_less)
  then have "sorted_wrt (\<lambda>i j. index (df ! i) < index (df ! j)) ?ks"
    using dropna_sorted [of "all_columns tk df timeframe" "target_column df timeframe" "length df"]
      dropna_bound [of _ "all_columns tk df timeframe" "target_column df timeframe" "length df"]
    by (auto intro: sorted_wrt_mono_rel)
  then show ?thesis
    by (simp add: index_rows sorted_wrt_map)
qed

lemma sorted_split_less:
  assumes "sorted_wrt (<) (xs :: int list)" and "a \<in> set (take k xs)" and "b \<in> set (drop k xs)"
  shows "a < b"
proof -
  have "sorted_wrt (<) (take k xs @ drop k xs)" using assms(1) by simp
  then have "\<forall>x\<in>set (take k xs). \<forall>y\<in>set (drop k xs). x < y"
    unfolding sorted_wrt_append by blast
  then show ?thesis using assms(2,3) by blast
qed

text \<open>
  Claim C4. For every dataset with strictly increasing dates whose engineered table has at
  least the minimum number of rows, \<^verbatim>\<open>train_model\<close> splits the rows in their order at
  \<open>k = \<lfloor>0.8 \<times> len(X)\<rfloor>\<close>: the first \<open>k\<close> rows are the training slice (the stored model
  is fitted on them), the remaining rows are the test slice (the returned actuals are
  theirs), both slices are non-empty, and every training date is strictly less than every
  test date, so that the greatest training date is below the least test date.
\<close>

theorem chronological_split:
  assumes "sorted_wrt (<) (map index df)"
    and "dict_get min_samples timeframe 50 \<le> length (rows (fst (prepare_features tk df timeframe)))"
  shows "(let X = rows (fst (prepare_features tk df timeframe));
              y = snd (prepare_features tk df timeframe);
              k = 4 * length X div 5;
              scaler = scaler_fit tk (map snd (take k X))
          in chrono_split X = (take k X, drop k X)
           \<and> chrono_split y = (take k y, drop k y)
           \<and> map fst (take k y) = map fst (take k X)
           \<and> map fst (drop k y) = map fst (drop k X)
           \<and> (\<exists>r s'. train_model tk s df symbol timeframe = (Trained r, s')
                 \<and> models s' (model_key symbol timeframe) =
                     Some ((if timeframe \<in> set [''5Y'', ''1Y''] then fit_gradient_boosting tk
                            else fit_random_forest tk)
                             (map (scaler_transform tk scaler) (map snd (take k X)))
                             (map snd (take k y)))
                 \<and> actuals r = map snd (drop k y))
           \<and> take k X \<noteq> [] \<and> drop k X \<noteq> []
           \<and> (\<forall>a \<in> set (map fst (take k X)). \<forall>b \<in> set (map fst (drop k X)). a < b)
           \<and> Max (set (map fst (take k X))) < Min (set (map fst (drop k X))))"
proof -
  define X where "X = rows (fst (prepare_features tk df timeframe))"
  define y where "y = snd (prepare_features tk df timeframe)"
  define k where "k = 4 * length X div 5"
  have len: "30 \<le> length X"
    using assms(2) min_samples_ge [of timeframe] by (simp add: X_def)
  have leny: "length y = length X"
    by (simp add: X_def y_def length_series)
  have k: "split_idx (length X) = k"
    by (simp add: k_def split_idx_eq)
  have kpos: "0 < k" and klt: "k < length X"
    using len by (simp_all add: k_def)
  have split_X: "chrono_split X = (take k X, drop k X)"
    by (simp add: chrono_split_def k)
  have split_y: "chrono_split y = (take k y, drop k y)"
    by (simp add: chrono_split_def leny k)
  have idx: "map fst y = map fst X"
    by (simp add: X_def y_def index_series)
  have idx_take: "map fst (take k y) = map fst (take k X)"
    using idx by (simp add: take_map [symmetric])
  have idx_drop: "map fst (drop k y) = map fst (drop k X)"
    using idx by (simp add: drop_map [symmetric])
  have nonempty: "take k X \<noteq> []" "drop k X \<noteq> []"
    using kpos klt by auto
  have sorted: "sorted_wrt (<) (map fst X)"
    using assms(1) by (simp add: X_def index_rows_sorted)
  have less: "\<forall>a \<in> set (map fst (take k X)). \<forall>b \<in> set (map fst (drop k X)). a < b"
    using sorted_split_less [OF sorted, of _ k] by (simp add: take_map drop_map)
  then have maxmin: "Max (set (map fst (take k X))) < Min (set (map fst (drop k X)))"
    using nonempty by simp
  have ge: "\<not> length (rows (fst (prepare_features tk df timeframe))) < dict_get min_samples timeframe 50"
    using assms(2) by simp
  have trained: "\<exists>r s'. train_model tk s df symbol timeframe = (Trained r, s')
        \<and> models s' (model_key symbol timeframe) =
            Some ((if timeframe \<in> set [''5Y'', ''1Y''] then fit_gradient_boosting tk
                   else fit_random_forest tk)
                    (map (scaler_transform tk (scaler_fit tk (map snd (take k X)))) (map snd (take k X)))
                    (map snd (take k y)))
        \<and> actuals r = map snd (drop k y)"
    unfolding k [symmetric] X_def y_def
    by (simp add: train_model_trained [OF ge] Let_def)
  from split_X split_y idx_take idx_drop trained nonempty less maxmin
  show ?thesis
    unfolding X_def [symmetric] y_def [symmetric] Let_def k_def [symmetric] by blast
qed


lemma py_slice_nat:
  assumes "a \<le> b" and "b \<le> length xs"
  shows "py_slice (Some (int a)) (Some (int b)) xs = take (b - a) (drop a xs)"
proof -
  have "nat (int b - int a) = b - a" by simp
  with assms show ?thesis by (simp add: py_slice_def Let_def min_def)
qed

lemma cell_at_shift:
  "cell_at (shift k xs) i =
     (if i < length xs \<and> 0 \<le> int i - k \<and> int i - k < int (length xs)
      then xs ! nat (int i - k) else None)"
  by (simp add: cell_at_def shift_def Let_def)

lemma close_lag_1_column:
  "(''close_lag_1'', shift 1 (map Some (map Close df))) \<in> set (all_columns tk df timeframe)"
proof -
  define L where "L = min 10 (max 3 (length df div 100))"
  have "3 \<le> L" unfolding L_def by linarith
  moreover have "str_nat (Suc 0) = ''1''" by (simp add: str_nat.simps)
  ultimately have "(''close_lag_1'', shift 1 (map Some (map Close df)))
               \<in> set (lag_columns tk (map Close df) L)"
    by (auto simp: lag_columns_def intro!: bexI [of _ 1])
  then show ?thesis
    by (simp add: all_columns_def case_prod_beta L_def)
qed

lemma first_position_dropped:
  "0 \<notin> set (dropna (all_columns tk df timeframe) (target_column df timeframe) (length df))"
proof
  assume "0 \<in> set (dropna (all_columns tk df timeframe) (target_column df timeframe) (length df))"
  then have "list_all (\<lambda>c. cell_at (snd c) 0 \<noteq> None) (all_columns tk df timeframe)"
    by (simp add: dropna_def)
  with close_lag_1_column [of df tk timeframe]
  have "cell_at (shift 1 (map Some (map Close df))) 0 \<noteq> None"
    by (auto simp: list_all_iff)
  then show False by (simp add: cell_at_shift)
qed

lemma first_date_dropped:
  assumes "sorted_wrt (<) (map index df)"
  shows "index (hd df) \<notin> set (map fst (rows (fst (prepare_features tk df timeframe))))"
proof
  let ?ks = "dropna (all_columns tk df timeframe) (target_column df timeframe) (length df)"
  assume "index (hd df) \<in> set (map fst (rows (fst (prepare_features tk df timeframe))))"
  then obtain i where i: "i \<in> set ?ks" and eq: "index (df ! i) = index (hd df)"
    by (auto simp: index_rows)
  have lt: "i < length df" using i by (rule dropna_bound)
  have "i \<noteq> 0" using i first_position_dropped [of tk df timeframe] by metis
  then have "index (df ! 0) < index (df ! i)"
    using assms lt by (simp add: sorted_wrt_iff_nth_less)
  moreover have "hd df = df ! 0" using lt by (cases df) simp_all
  ultimately show False using eq by simp
qed

text \<open>
  Claim C3. When the engineered table has fewer rows than the minimum for the timeframe
  (1M: 30, 6M: 60, 1Y: 100, 5Y: 200), \<^verbatim>\<open>train_model\<close> returns the insufficient-data
  result, with a non-empty message and the four metrics equal to zero, instead of raising,
  and the predictor is returned as it was: the model cache, the scaler cache and the
  feature-importance store are unchanged at the key of the symbol and timeframe.
\<close>

theorem insufficient_data_result:
  assumes "length (rows (fst (prepare_features tk df timeframe))) < dict_get min_samples timeframe 50"
  shows "train_model tk s df symbol timeframe =
           (Insufficient
              (insufficient_message timeframe (dict_get min_samples timeframe 50)
                 (length (rows (fst (prepare_features tk df timeframe)))))
              \<lparr>rmse = 0, mae = 0, r2 = 0, mape = 0\<rparr>, s)
       \<and> insufficient_message timeframe (dict_get min_samples timeframe 50)
            (length (rows (fst (prepare_features tk df timeframe)))) \<noteq> []
       \<and> models (snd (train_model tk s df symbol timeframe)) (model_key symbol timeframe)
            = models s (model_key symbol timeframe)
       \<and> scalers (snd (train_model tk s df symbol timeframe)) (model_key symbol timeframe)
            = scalers s (model_key symbol timeframe)
       \<and> feature_importance (snd (train_model tk s df symbol timeframe)) (model_key symbol timeframe)
            = feature_importance s (model_key symbol timeframe)
       \<and> dict_get min_samples ''1M'' 50 = 30 \<and> dict_get min_samples ''6M'' 50 = 60
       \<and> dict_get min_samples ''1Y'' 50 = 100 \<and> dict_get min_samples ''5Y'' 50 = 200"
proof -
  note tm = train_model_insufficient [OF assms, of s symbol]
  have "insufficient_message timeframe (dict_get min_samples timeframe 50)
            (length (rows (fst (prepare_features tk df timeframe)))) \<noteq> []"
    by (simp add: insufficient_message_def)
  moreover have "dict_get min_samples ''1M'' 50 = 30 \<and> dict_get min_samples ''6M'' 50 = 60
       \<and> dict_get min_samples ''1Y'' 50 = 100 \<and> dict_get min_samples ''5Y'' 50 = 200"
    by (simp add: dict_get_def min_samples_def)
  ultimately show ?thesis by (simp add: tm)
qed

text \<open>
  Claim C10. The \<^verbatim>\<open>prediction_dates\<close> of a successful \<^verbatim>\<open>train_model\<close> are the dates of the
  raw input at the positions \<open>split_idx, \<dots>, split_idx + len(test) - 1\<close>, not the dates of
  the engineered table. When the dates are strictly increasing and the first input row is
  not a row of the engineered table, every returned date is strictly earlier than the date
  of the test row whose actual value it is paired with. (By \<open>first_date_dropped\<close> the first
  input row is never a row of the engineered table.)
\<close>

theorem prediction_dates_from_raw_index:
  assumes "sorted_wrt (<) (map index df)"
    and "dict_get min_samples timeframe 50 \<le> length (rows (fst (prepare_features tk df timeframe)))"
    and "index (hd df) \<notin> set (map fst (rows (fst (prepare_features tk df timeframe))))"
  shows "(let X = rows (fst (prepare_features tk df timeframe));
              y = snd (prepare_features tk df timeframe);
              k = 4 * length X div 5
          in \<exists>r s'. train_model tk s df symbol timeframe = (Trained r, s')
               \<and> prediction_dates r = take (length X - k) (drop k (map index df))
               \<and> actuals r = map snd (drop k y)
               \<and> length (prediction_dates r) = length (actuals r)
               \<and> (\<forall>j < length (actuals r). prediction_dates r ! j < fst (drop k y ! j)))"
proof -
  define X where "X = rows (fst (prepare_features tk df timeframe))"
  define y where "y = snd (prepare_features tk df timeframe)"
  define k where "k = 4 * length X div 5"
  define ks where "ks = dropna (all_columns tk df timeframe) (target_column df timeframe) (length df)"
  have k: "split_idx (length X) = k"
    by (simp add: k_def split_idx_eq)
  have kle: "k \<le> length X" by (simp add: k_def)
  have leny: "length y = length X"
    by (simp add: X_def y_def length_series)
  have lenks: "length X = length ks"
    by (simp add: X_def ks_def length_rows)
  have lendf: "length X \<le> length df"
    unfolding lenks ks_def by (rule dropna_length)
  have idx_y: "map fst y = map (\<lambda>i. index (df ! i)) ks"
    by (simp add: y_def ks_def index_series index_rows)
  have zero: "0 \<notin> set ks"
  proof
    assume "0 \<in> set ks"
    then have "index (df ! 0) \<in> set (map fst X)"
      unfolding X_def index_rows ks_def by (simp add: image_iff) blast
    moreover have "0 < length df" using \<open>0 \<in> set ks\<close> ks_def dropna_bound by blast
    then have "hd df = df ! 0" by (cases df) simp_all
    ultimately show False using assms(3) by (simp add: X_def)
  qed
  have ge: "\<not> length (rows (fst (prepare_features tk df timeframe))) < dict_get min_samples timeframe 50"
    using assms(2) by simp
  have dates: "py_slice (Some (int k)) (Some (int (k + length (drop k y)))) (map index df)
                 = take (length X - k) (drop k (map index df))"
    using py_slice_nat [of k "k + length (drop k y)" "map index df"] kle leny lendf by simp
  have earlier: "take (length X - k) (drop k (map index df)) ! j < fst (drop k y ! j)"
    if j: "j < length X - k" for j
  proof -
    have kj: "k + j < length ks" using j lenks by simp
    have pos: "k + j < ks ! (k + j)"
      using strict_positions [OF _ zero kj] dropna_sorted ks_def by simp
    have "ks ! (k + j) \<in> set ks" using kj by simp
    then have bound: "ks ! (k + j) < length df"
      unfolding ks_def by (rule dropna_bound)
    have "fst (drop k y ! j) = map fst y ! (k + j)"
      using kj leny lenks by simp
    also have "\<dots> = index (df ! (ks ! (k + j)))"
      using kj by (simp add: idx_y)
    finally have true_date: "fst (drop k y ! j) = index (df ! (ks ! (k + j)))" .
    have "take (length X - k) (drop k (map index df)) ! j = index (df ! (k + j))"
      using j pos bound by simp
    moreover have "index (df ! (k + j)) < index (df ! (ks ! (k + j)))"
      using assms(1) pos bound by (simp add: sorted_wrt_iff_nth_less)
    ultimately show ?thesis using true_date by simp
  qed
  have "\<exists>r s'. train_model tk s df symbol timeframe = (Trained r, s')
          \<and> prediction_dates r =
              py_slice (Some (int k)) (Some (int (k + length (drop k y)))) (map index df)
          \<and> actuals r = map snd (drop k y)"
    unfolding k [symmetric] X_def y_def
    by (simp add: train_model_trained [OF ge] Let_def)
  then obtain r s' where tm: "train_model tk s df symbol timeframe = (Trained r, s')"
    and pd: "prediction_dates r = take (length X - k) (drop k (map index df))"
    and ac: "actuals r = map snd (drop k y)"
    using dates by auto
  have len_ac: "length (actuals r) = length X - k"
    by (simp add: ac leny)
  have len_pd: "length (prediction_dates r) = length X - k"
    using lendf by (simp add: pd)
  have "\<forall>j < length (actuals r). prediction_dates r ! j < fst (drop k y ! j)"
    using earlier by (simp add: len_ac pd)
  with tm pd ac len_ac len_pd show ?thesis
    unfolding Let_def X_def [symmetric] y_def [symmetric] k_def [symmetric] by auto
qed

section \<open>The rising series under the exact toolkit\<close>

lemma filter_interval:
  assumes "b \<le> n"
  shows "filter (\<lambda>i. a \<le> i \<and> i < b) [0..<n] = [a..<b]"
proof (rule sorted_distinct_set_unique)
  show "sorted (filter (\<lambda>i. a \<le> i \<and> i < b) [0..<n])" by (simp add: sorted_wrt_filter)
  show "set (filter (\<lambda>i. a \<le> i \<and> i < b) [0..<n]) = set [a..<b]" using assms by auto
qed simp_all

lemma cell_at_rolling_mean:
  "cell_at (rolling_mean w xs) i \<noteq> None \<longleftrightarrow> i < length xs \<and> w \<le> i + 1"
  by (auto simp: cell_at_def rolling_mean_def)

lemma cell_at_diff_by:
  "cell_at (diff_by k xs) i \<noteq> None \<longleftrightarrow> i < length xs \<and> k \<le> i"
  by (auto simp: cell_at_def diff_by_def)

lemma cell_at_shift_Some:
  "cell_at (shift k (map Some xs)) i \<noteq> None
     \<longleftrightarrow> i < length xs \<and> 0 \<le> int i - k \<and> int i - k < int (length xs)"
proof (cases "i < length xs \<and> 0 \<le> int i - k \<and> int i - k < int (length xs)")
  case True
  then have "nat (int i - k) < length xs" by linarith
  with True show ?thesis by (simp add: cell_at_shift)
next
  case False
  then show ?thesis by (auto simp: cell_at_shift)
qed

lemma cell_at_pct:
  assumes "\<forall>x \<in> set xs. x \<noteq> 0" and "j < length xs"
  shows "exact_pct_change xs ! j \<noteq> None \<longleftrightarrow> 0 < j"
proof (cases "j = 0")
  case True
  with assms(2) show ?thesis by (simp add: exact_pct_change_def)
next
  case False
  then have "xs ! (j - 1) \<noteq> 0" using assms by (simp add: less_imp_diff_less)
  with False assms(2) show ?thesis by (simp add: exact_pct_change_def)
qed

lemma cell_at_shift_pct:
  assumes "\<forall>x \<in> set xs. x \<noteq> 0"
  shows "cell_at (shift k (exact_pct_change xs)) i \<noteq> None
     \<longleftrightarrow> i < length xs \<and> 0 < int i - k \<and> int i - k < int (length xs)"
proof (cases "i < length xs \<and> 0 \<le> int i - k \<and> int i - k < int (length xs)")
  case True
  have len: "length (exact_pct_change xs) = length xs" by (simp add: exact_pct_change_def)
  have "nat (int i - k) < length xs" using True by linarith
  from cell_at_pct [OF assms this] True len show ?thesis
    by (simp add: cell_at_shift)
next
  case False
  have len: "length (exact_pct_change xs) = length xs" by (simp add: exact_pct_change_def)
  from False len show ?thesis by (auto simp: cell_at_shift)
qed

lemma length_rising: "length (rising_series n) = n"
  by (simp add: rising_series_def)

lemma closes_rising: "\<forall>x \<in> set (map Close (rising_series n)). x \<noteq> 0"
proof
  fix x assume "x \<in> set (map Close (rising_series n))"
  then obtain i where "x = 100 + real i" by (auto simp: rising_series_def)
  then show "x \<noteq> 0" by (simp add: add_nonneg_eq_0_iff)
qed

lemma index_rising: "map index (rising_series n) = map int [0..<n]"
  by (simp add: rising_series_def comp_def)

lemma sorted_rising: "sorted_wrt (<) (map index (rising_series n))"
  unfolding index_rising by (simp add: sorted_wrt_map sorted_wrt_upt [unfolded] sorted_wrt_iff_nth_less)

lemma lags_three: "[Suc 0..<4] = [Suc 0, 2, 3]"
  by (simp add: upt_rec)

lemma kept_rising_1M:
  assumes "20 \<le> n" and "n < 100"
  shows "dropna (all_columns baseline_toolkit (rising_series n) ''1M'')
           (target_column (rising_series n) ''1M'') (length (rising_series n)) = [19..<n - 1]"
proof -
  have lag: "min 10 (max 3 (n div 100)) = 3" using assms by simp
  have shift_eq: "dict_get TIMEFRAME_DAYS ''1M'' 30 div 30 = 1"
    by (simp add: dict_get_def TIMEFRAME_DAYS_def)
  have "dropna (all_columns baseline_toolkit (rising_series n) ''1M'')
           (target_column (rising_series n) ''1M'') (length (rising_series n))
        = filter (\<lambda>i. 19 \<le> i \<and> i < n - 1) [0..<n]"
    unfolding dropna_def length_rising
  proof (rule filter_cong [OF refl])
    fix i assume "i \<in> set [0..<n]"
    then have i: "i < n" by simp
    show "(list_all (\<lambda>c. cell_at (snd c) i \<noteq> None)
             (all_columns baseline_toolkit (rising_series n) ''1M'')
           \<and> cell_at (target_column (rising_series n) ''1M'') i \<noteq> None)
          = (19 \<le> i \<and> i < n - 1)"
      using assms i
      by (auto simp: all_columns_def feature_windows_def baseline_toolkit_def exact_indicators_def
          lag_columns_def lag lags_three length_rising target_column_def shift_eq
          cell_at_rolling_mean cell_at_diff_by cell_at_shift_Some
          cell_at_shift_pct [OF closes_rising]
          simp del: not_None_eq map_map)
  qed
  also have "\<dots> = [19..<n - 1]" by (rule filter_interval) simp
  finally show ?thesis .
qed


section \<open>Scaling and the examples of training\<close>

text \<open>
  Claim C7. The statistics of the feature standardizer depend on the training slice only:
  two trainings whose engineered tables agree in the feature values of their first
  \<open>\<lfloor>0.8 \<times> len(X)\<rfloor>\<close> rows store the same scaler, which is the one fitted on that slice,
  and the training rows (given to the regressor) and the test rows (given to the
  prediction) are both transformed with this one scaler.
\<close>

theorem scaler_fit_on_training_slice:
  assumes "dict_get min_samples timeframe1 50 \<le> length (rows (fst (prepare_features tk df1 timeframe1)))"
    and "dict_get min_samples timeframe2 50 \<le> length (rows (fst (prepare_features tk df2 timeframe2)))"
    and "take (4 * length (rows (fst (prepare_features tk df1 timeframe1))) div 5)
            (map snd (rows (fst (prepare_features tk df1 timeframe1))))
         = take (4 * length (rows (fst (prepare_features tk df2 timeframe2))) div 5)
            (map snd (rows (fst (prepare_features tk df2 timeframe2))))"
  shows "scalers (snd (train_model tk s1 df1 symbol1 timeframe1)) (model_key symbol1 timeframe1)
           = scalers (snd (train_model tk s2 df2 symbol2 timeframe2)) (model_key symbol2 timeframe2)
       \<and> (let X = rows (fst (prepare_features tk df1 timeframe1));
               y = snd (prepare_features tk df1 timeframe1);
               k = 4 * length X div 5;
               scaler = scaler_fit tk (take k (map snd X))
           in \<exists>r s' model. train_model tk s1 df1 symbol1 timeframe1 = (Trained r, s')
                \<and> scalers s' (model_key symbol1 timeframe1) = Some scaler
                \<and> models s' (model_key symbol1 timeframe1) = Some model
                \<and> model = (if timeframe1 \<in> set [''5Y'', ''1Y''] then fit_gradient_boosting tk
                            else fit_random_forest tk)
                             (map (scaler_transform tk scaler) (take k (map snd X)))
                             (take k (map snd y))
                \<and> predictions r =
                     map (predict_row tk model) (map (scaler_transform tk scaler) (drop k (map snd X))))"
proof -
  have ge1: "\<not> length (rows (fst (prepare_features tk df1 timeframe1))) < dict_get min_samples timeframe1 50"
    using assms(1) by simp
  have ge2: "\<not> length (rows (fst (prepare_features tk df2 timeframe2))) < dict_get min_samples timeframe2 50"
    using assms(2) by simp
  have sc1: "scalers (snd (train_model tk s1 df1 symbol1 timeframe1)) (model_key symbol1 timeframe1)
      = Some (scaler_fit tk (take (4 * length (rows (fst (prepare_features tk df1 timeframe1))) div 5)
            (map snd (rows (fst (prepare_features tk df1 timeframe1))))))"
    by (simp add: train_model_trained [OF ge1] Let_def split_idx_eq take_map)
  have sc2: "scalers (snd (train_model tk s2 df2 symbol2 timeframe2)) (model_key symbol2 timeframe2)
      = Some (scaler_fit tk (take (4 * length (rows (fst (prepare_features tk df2 timeframe2))) div 5)
            (map snd (rows (fst (prepare_features tk df2 timeframe2))))))"
    by (simp add: train_model_trained [OF ge2] Let_def split_idx_eq take_map)
  have same: "scalers (snd (train_model tk s1 df1 symbol1 timeframe1)) (model_key symbol1 timeframe1)
           = scalers (snd (train_model tk s2 df2 symbol2 timeframe2)) (model_key symbol2 timeframe2)"
    using sc1 sc2 assms(3) by simp
  have both: "(let X = rows (fst (prepare_features tk df1 timeframe1));
               y = snd (prepare_features tk df1 timeframe1);
               k = 4 * length X div 5;
               scaler = scaler_fit tk (take k (map snd X))
           in \<exists>r s' model. train_model tk s1 df1 symbol1 timeframe1 = (Trained r, s')
                \<and> scalers s' (model_key symbol1 timeframe1) = Some scaler
                \<and> models s' (model_key symbol1 timeframe1) = Some model
                \<and> model = (if timeframe1 \<in> set [''5Y'', ''1Y''] then fit_gradient_boosting tk
                            else fit_random_forest tk)
                             (map (scaler_transform tk scaler) (take k (map snd X)))
                             (take k (map snd y))
                \<and> predictions r =
                     map (predict_row tk model) (map (scaler_transform tk scaler) (drop k (map snd X))))"
    by (simp add: train_model_trained [OF ge1] Let_def split_idx_eq take_map drop_map)
  from same both show ?thesis by (rule conjI)
qed

lemma rows_rising_1M:
  assumes "20 \<le> n" and "n < 100"
  shows "length (rows (fst (prepare_features baseline_toolkit (rising_series n) ''1M''))) = n - 20"
  using assms by (simp add: length_rows kept_rising_1M)

lemma index_nth_rising: "i < n \<Longrightarrow> index (rising_series n ! i) = int i"
  by (simp add: rising_series_def)

lemma floor_1M: "dict_get min_samples ''1M'' 50 = 30"
  by (simp add: dict_get_def min_samples_def)

theorem chronological_split_witness:
  "sorted_wrt (<) (map index (rising_series 50))
   \<and> dict_get min_samples ''1M'' 50
        \<le> length (rows (fst (prepare_features baseline_toolkit (rising_series 50) ''1M'')))
   \<and> Max (set (map fst (take 24 (rows (fst (prepare_features baseline_toolkit (rising_series 50) ''1M''))))))
       < Min (set (map fst (drop 24 (rows (fst (prepare_features baseline_toolkit (rising_series 50) ''1M''))))))"
proof -
  have len: "length (rows (fst (prepare_features baseline_toolkit (rising_series 50) ''1M''))) = 30"
    by (simp add: rows_rising_1M)
  have h1: "sorted_wrt (<) (map index (rising_series 50))"
    by (rule sorted_rising)
  have h2: "dict_get min_samples ''1M'' 50
        \<le> length (rows (fst (prepare_features baseline_toolkit (rising_series 50) ''1M'')))"
    by (simp add: len floor_1M)
  from chronological_split [OF h1 h2, of empty_predictor "''ACME''"] h1 h2
  show ?thesis by (simp add: Let_def len)
qed

theorem insufficient_data_result_witness:
  "length (rows (fst (prepare_features baseline_toolkit (rising_series 10) ''1Y''))) < dict_get min_samples ''1Y'' 50
   \<and> train_model baseline_toolkit empty_predictor (rising_series 10) ''ACME'' ''1Y'' =
       (Insufficient ''Insufficient data for 1Y training. Need at least 100 samples, got 0''
          \<lparr>rmse = 0, mae = 0, r2 = 0, mape = 0\<rparr>, empty_predictor)"
proof -
  have len: "length (rows (fst (prepare_features baseline_toolkit (rising_series 10) ''1Y''))) = 0"
    by code_simp
  have fl: "dict_get min_samples ''1Y'' 50 = 100"
    by (simp add: dict_get_def min_samples_def)
  have h: "length (rows (fst (prepare_features baseline_toolkit (rising_series 10) ''1Y''))) < dict_get min_samples ''1Y'' 50"
    by (simp add: len fl)
  have msg: "insufficient_message ''1Y'' 100 0 = ''Insufficient data for 1Y training. Need at least 100 samples, got 0''"
    by code_simp
  from insufficient_data_result [OF h, of empty_predictor "''ACME''"] h
  show ?thesis by (simp add: len fl msg)
qed

theorem prediction_dates_from_raw_index_witness:
  "sorted_wrt (<) (map index (rising_series 50))
   \<and> dict_get min_samples ''1M'' 50
        \<le> length (rows (fst (prepare_features baseline_toolkit (rising_series 50) ''1M'')))
   \<and> index (hd (rising_series 50))
        \<notin> set (map fst (rows (fst (prepare_features baseline_toolkit (rising_series 50) ''1M''))))
   \<and> (\<exists>r s'. train_model baseline_toolkit empty_predictor (rising_series 50) ''ACME'' ''1M'' = (Trained r, s')
         \<and> prediction_dates r = [24, 25, 26, 27, 28, 29]
         \<and> map fst (drop 24 (snd (prepare_features baseline_toolkit (rising_series 50) ''1M'')))
              = [43, 44, 45, 46, 47, 48])"
proof -
  have len: "length (rows (fst (prepare_features baseline_toolkit (rising_series 50) ''1M''))) = 30"
    by (simp add: rows_rising_1M)
  have h1: "sorted_wrt (<) (map index (rising_series 50))"
    by (rule sorted_rising)
  have h2: "dict_get min_samples ''1M'' 50
        \<le> length (rows (fst (prepare_features baseline_toolkit (rising_series 50) ''1M'')))"
    by (simp add: len floor_1M)
  have h3: "index (hd (rising_series 50))
        \<notin> set (map fst (rows (fst (prepare_features baseline_toolkit (rising_series 50) ''1M''))))"
    using h1 by (rule first_date_dropped)
  have dates: "take 6 (drop 24 (map index (rising_series 50))) = [24, 25, 26, 27, 28, 29]"
    unfolding index_rising by code_simp
  have true_dates: "map fst (drop 24 (snd (prepare_features baseline_toolkit (rising_series 50) ''1M'')))
              = [43, 44, 45, 46, 47, 48]"
  proof -
    have "map fst (snd (prepare_features baseline_toolkit (rising_series 50) ''1M''))
            = map (\<lambda>i. index (rising_series 50 ! i)) [19..<49]"
      using kept_rising_1M [of 50] by (simp add: index_series index_rows)
    also have "\<dots> = map int [19..<49]"
    proof (rule map_cong [OF refl])
      fix i :: nat assume "i \<in> set [19..<49]"
      then have "i < 49" by (simp only: set_upt atLeastLessThan_iff)
      then have "i < 50" by linarith
      then show "index (rising_series 50 ! i) = int i" by (rule index_nth_rising)
    qed
    finally have "map fst (drop 24 (snd (prepare_features baseline_toolkit (rising_series 50) ''1M'')))
            = drop 24 (map int [19..<49])"
      by (simp add: drop_map [symmetric])
    also have "\<dots> = [43, 44, 45, 46, 47, 48]" by code_simp
    finally show ?thesis .
  qed
  from prediction_dates_from_raw_index [OF h1 h2 h3, of empty_predictor "''ACME''"] h1 h2 h3 true_dates
  show ?thesis by (auto simp: Let_def len dates)
qed

section \<open>Forecast runs\<close>

lemma py_slice_last: "xs \<noteq> [] \<Longrightarrow> py_slice (Some (- 1)) None xs = [last xs]"
proof -
  assume ne: "xs \<noteq> []"
  then have len: "0 < length xs" by simp
  have "drop (length xs - 1) xs = [last xs]"
    using ne by (metis append_butlast_last_id append_eq_conv_conj length_butlast)
  moreover have "nat (int (length xs) - 1) = length xs - 1" by simp
  moreover have "nat (int (length xs) - (int (length xs) - 1)) = 1" by simp
  ultimately show ?thesis using len
    by (simp add: py_slice_def Let_def max_def)
qed

lemma iloc_last: "xs \<noteq> [] \<Longrightarrow> iloc xs (- 1) = Inr (last xs)"
proof -
  assume ne: "xs \<noteq> []"
  then have "nat (int (length xs) - 1) = length xs - 1" by simp
  with ne show ?thesis by (simp add: iloc_def Let_def last_conv_nth)
qed

lemma iloc_first: "iloc [x] 0 = Inr x"
  by (simp add: iloc_def)

lemma trend_rate_defined: "df \<noteq> [] \<Longrightarrow> \<exists>v. trend_rate df = Inr v"
proof -
  assume ne: "df \<noteq> []"
  define t where "t = min 90 (length df div 2)"
  have t: "t \<le> length df div 2" by (simp add: t_def)
  have "\<exists>c. iloc (map Close df) (- int t) = Inr c"
  proof (cases "t = 0")
    case True
    with ne show ?thesis by (simp add: iloc_def)
  next
    case False
    with t have "0 \<le> int (length df) - int t" "int (length df) - int t < int (length df)"
      by linarith+
    with False show ?thesis by (simp add: iloc_def Let_def)
  qed
  then show ?thesis
    using ne by (auto simp: trend_rate_def Let_def iloc_last t_def [symmetric])
qed

lemma rows_nonempty_df:
  assumes "rows (fst (prepare_features tk df timeframe)) \<noteq> []"
  shows "df \<noteq> []"
proof
  assume "df = []"
  then have "rows (fst (prepare_features tk df timeframe)) = []"
    by (simp add: rows_prepare dropna_def)
  with assms show False by simp
qed

lemma predict_future_run:
  assumes "s1 = (if models s (model_key symbol timeframe) = None
                 then snd (train_model tk s df symbol timeframe) else s)"
    and "models s1 (model_key symbol timeframe) = Some model"
    and "scalers s1 (model_key symbol timeframe) = Some scaler"
    and "rows (fst (prepare_features tk df timeframe)) \<noteq> []"
    and "scaler_n_features tk scaler = length (columns (fst (prepare_features tk df timeframe)))"
    and "model_n_features tk model = length (columns (fst (prepare_features tk df timeframe)))"
    and "TIMEFRAME_DAYS timeframe = Some total_days"
  shows "\<exists>base recent_trend.
           predict_future tk s df symbol timeframe =
             (Inr (map (forecast_at timeframe total_days
                          (total_days div get_prediction_points timeframe)
                          (index (last df)) (Close (last df))
                          (series_std tk (pct_change tk (map Close df))) base recent_trend)
                     [0..<get_prediction_points timeframe]), s1)"
proof -
  have ne: "df \<noteq> []" using assms(4) by (rule rows_nonempty_df)
  obtain v where v: "trend_rate df = Inr v" using trend_rate_defined [OF ne] by blast
  have last: "py_slice (Some (- 1)) None (rows (fst (prepare_features tk df timeframe)))
                = [last (rows (fst (prepare_features tk df timeframe)))]"
    using assms(4) by (rule py_slice_last)
  show ?thesis
    using assms(2-7) ne v
    by (cases "timeframe \<in> set [''1Y'', ''5Y'']")
      (simp_all add: predict_future_def Let_def case_prod_beta assms(1) [symmetric] last
        iloc_first iloc_last last_map del: set_simps, blast+)
qed

lemma predict_future_cached:
  assumes "models s (model_key symbol timeframe) = Some model"
    and "scalers s (model_key symbol timeframe) = Some scaler"
    and "rows (fst (prepare_features tk df timeframe)) \<noteq> []"
    and "scaler_n_features tk scaler = length (columns (fst (prepare_features tk df timeframe)))"
    and "model_n_features tk model = length (columns (fst (prepare_features tk df timeframe)))"
    and "TIMEFRAME_DAYS timeframe = Some total_days"
  shows "\<exists>base recent_trend.
           predict_future tk s df symbol timeframe =
             (Inr (map (forecast_at timeframe total_days
                          (total_days div get_prediction_points timeframe)
                          (index (last df)) (Close (last df))
                          (series_std tk (pct_change tk (map Close df))) base recent_trend)
                     [0..<get_prediction_points timeframe]), s)"
proof -
  have "s = (if models s (model_key symbol timeframe) = None
             then snd (train_model tk s df symbol timeframe) else s)"
    using assms(1) by simp
  from predict_future_run [OF this assms] show ?thesis .
qed

lemma predict_future_scaler_mismatch:
  assumes "models s (model_key symbol timeframe) = Some model"
    and "scalers s (model_key symbol timeframe) = Some scaler"
    and "rows (fst (prepare_features tk df timeframe)) \<noteq> []"
    and "length (columns (fst (prepare_features tk df timeframe))) \<noteq> scaler_n_features tk scaler"
  shows "predict_future tk s df symbol timeframe =
           (Inl (ValueError
                   (n_features_message (length (columns (fst (prepare_features tk df timeframe))))
                      ''StandardScaler'' (scaler_n_features tk scaler))), s)"
  using assms by (simp add: predict_future_def Let_def case_prod_beta)

lemma predict_future_points:
  assumes "predict_future tk s df symbol timeframe = (Inr pts, s')" and "pts \<noteq> []"
  shows "\<exists>total_days last_date price vol base recent_trend.
           TIMEFRAME_DAYS timeframe = Some total_days
         \<and> pts = map (forecast_at timeframe total_days
                         (total_days div get_prediction_points timeframe)
                         last_date price vol base recent_trend)
                    [0..<get_prediction_points timeframe]"
proof -
  define s1 where "s1 = (if models s (model_key symbol timeframe) = None
                         then snd (train_model tk s df symbol timeframe) else s)"
  note pf = assms(1) [unfolded predict_future_def Let_def case_prod_beta, folded s1_def]
  show ?thesis
    using pf assms(2)
    by (simp split: option.splits sum.splits if_splits del: set_simps, blast+)
qed

lemma horizon_cases:
  assumes "TIMEFRAME_DAYS timeframe = Some total_days"
  shows "(timeframe = ''1M'' \<and> total_days = 30 \<and> get_prediction_points timeframe = 30)
       \<or> (timeframe = ''6M'' \<and> total_days = 180 \<and> get_prediction_points timeframe = 26)
       \<or> (timeframe = ''1Y'' \<and> total_days = 365 \<and> get_prediction_points timeframe = 52)
       \<or> (timeframe = ''5Y'' \<and> total_days = 1825 \<and> get_prediction_points timeframe = 60)"
  using assms
  by (auto simp: TIMEFRAME_DAYS_def get_prediction_points_def dict_get_def split: if_splits)

lemma step_positive:
  assumes "TIMEFRAME_DAYS timeframe = Some total_days"
  shows "0 < total_days div get_prediction_points timeframe"
  using horizon_cases [OF assms] by auto

lemma horizon_bound:
  assumes "TIMEFRAME_DAYS timeframe = Some total_days"
  shows "get_prediction_points timeframe * (total_days div get_prediction_points timeframe) \<le> total_days"
    and "0 < total_days" and "0 < get_prediction_points timeframe"
  using horizon_cases [OF assms] by auto

lemma forecast_at_fields:
  "daysAhead (forecast_at timeframe total_days step last_date price vol base trend i) = (i + 1) * step"
  "date (forecast_at timeframe total_days step last_date price vol base trend i)
     = last_date + int ((i + 1) * step)"
  "confidence (forecast_at timeframe total_days step last_date price vol base trend i)
     = confidence_score ((i + 1) * step) total_days"
  by (simp_all add: forecast_at_def Let_def)

lemma confidence_score_mono:
  assumes "a \<le> b"
  shows "confidence_score b total_days \<le> confidence_score a total_days"
proof -
  have "real a / real total_days \<le> real b / real total_days"
    using assms by (simp add: divide_right_mono)
  then have "100 - real b / real total_days * 50 \<le> 100 - real a / real total_days * 50"
    by linarith
  then show ?thesis
    unfolding confidence_score_def by (intro max.mono order_refl)
qed

lemma confidence_score_bounds:
  "0 \<le> confidence_score a total_days" "confidence_score a total_days \<le> 100"
  by (simp_all add: confidence_score_def)

lemma confidence_score_floor:
  assumes "a \<le> total_days" and "0 < total_days"
  shows "50 \<le> confidence_score a total_days"
proof -
  have "real a / real total_days \<le> 1" using assms by simp
  then show ?thesis by (simp add: confidence_score_def)
qed

lemma confidence_score_end: "0 < total_days \<Longrightarrow> confidence_score total_days total_days = 50"
  by (simp add: confidence_score_def)

lemma confidence_score_linear:
  assumes "a \<le> total_days" and "0 < total_days"
  shows "confidence_score a total_days = 100 - real a / real total_days * 50"
proof -
  have "real a / real total_days \<le> 1" using assms by simp
  then show ?thesis by (simp add: confidence_score_def)
qed

lemma confidence_score_strict:
  assumes "a < b" and "b \<le> total_days"
  shows "confidence_score b total_days < confidence_score a total_days"
proof -
  have pos: "0 < total_days" using assms by simp
  have a: "a \<le> total_days" using assms by simp
  have "real a / real total_days < real b / real total_days"
    using assms pos by (simp add: divide_strict_right_mono)
  then have "100 - real b / real total_days * 50 < 100 - real a / real total_days * 50"
    by linarith
  then show ?thesis
    by (simp only: confidence_score_linear [OF a pos] confidence_score_linear [OF assms(2) pos])
qed

lemma confidence_score_fifty:
  assumes "a \<le> total_days" and "0 < total_days"
  shows "confidence_score a total_days = 50 \<longleftrightarrow> a = total_days"
proof -
  have e: "(100 - x * 50 = (50 :: real)) = (x = 1)" for x by auto
  have "real a / real total_days = 1 \<longleftrightarrow> a = total_days"
    using assms(2) by auto
  then show ?thesis
    by (simp only: confidence_score_linear [OF assms] e)
qed

text \<open>
  Claim C1, as amended. When a model and a scaler are cached for the symbol and timeframe,
  the timeframe is one of the four horizons, and the engineered feature table of the input
  series is not empty and has the number of feature columns that the cached scaler and
  regressor were fitted on, \<^verbatim>\<open>predict_future\<close> returns exactly the number of points of the
  horizon (1M: 30, 6M: 26, 1Y: 52, 5Y: 60) and leaves the predictor as it is; the \<open>i\<close>-th
  point (\<open>i = 1, \<dots>, points\<close>) has \<open>daysAhead = i \<times> \<lfloor>total_days / points\<rfloor>\<close>, the integer
  quotient (1, 6, 7 and 30 days), its date is the last input date plus \<open>daysAhead\<close>, and the
  dates are strictly increasing.
\<close>

theorem forecast_points_and_days:
  assumes "models s (model_key symbol timeframe) = Some model"
    and "scalers s (model_key symbol timeframe) = Some scaler"
    and "rows (fst (prepare_features tk df timeframe)) \<noteq> []"
    and "scaler_n_features tk scaler = length (columns (fst (prepare_features tk df timeframe)))"
    and "model_n_features tk model = length (columns (fst (prepare_features tk df timeframe)))"
    and "TIMEFRAME_DAYS timeframe = Some total_days"
  shows "(\<exists>pts. predict_future tk s df symbol timeframe = (Inr pts, s)
           \<and> length pts = get_prediction_points timeframe
           \<and> (\<forall>i < length pts.
                 daysAhead (pts ! i) = (i + 1) * (total_days div get_prediction_points timeframe)
                 \<and> date (pts ! i) = index (last df) + int (daysAhead (pts ! i)))
           \<and> sorted_wrt (<) (map date pts))
       \<and> get_prediction_points ''1M'' = 30 \<and> get_prediction_points ''6M'' = 26
       \<and> get_prediction_points ''1Y'' = 52 \<and> get_prediction_points ''5Y'' = 60
       \<and> TIMEFRAME_DAYS ''1M'' = Some 30 \<and> TIMEFRAME_DAYS ''6M'' = Some 180
       \<and> TIMEFRAME_DAYS ''1Y'' = Some 365 \<and> TIMEFRAME_DAYS ''5Y'' = Some 1825
       \<and> (30 :: nat) div 30 = 1 \<and> (180 :: nat) div 26 = 6
       \<and> (365 :: nat) div 52 = 7 \<and> (1825 :: nat) div 60 = 30"
proof -
  define step where "step = total_days div get_prediction_points timeframe"
  from predict_future_cached [OF assms] obtain base recent_trend where pf:
    "predict_future tk s df symbol timeframe =
       (Inr (map (forecast_at timeframe total_days
                    (total_days div get_prediction_points timeframe)
                    (index (last df)) (Close (last df))
                    (series_std tk (pct_change tk (map Close df))) base recent_trend)
               [0..<get_prediction_points timeframe]), s)"
    by (elim exE)
  define pts where "pts = map (forecast_at timeframe total_days step (index (last df)) (Close (last df))
                    (series_std tk (pct_change tk (map Close df))) base recent_trend)
               [0..<get_prediction_points timeframe]"
  have pf': "predict_future tk s df symbol timeframe = (Inr pts, s)"
    unfolding pts_def step_def by (rule pf)
  have len: "length pts = get_prediction_points timeframe" by (simp add: pts_def)
  have days: "daysAhead (pts ! i) = (i + 1) * step" if "i < length pts" for i
    using that by (simp add: pts_def forecast_at_fields)
  have dates: "date (pts ! i) = index (last df) + int ((i + 1) * step)" if "i < length pts" for i
    using that by (simp add: pts_def forecast_at_fields)
  have pos: "0 < step" unfolding step_def using assms(6) by (rule step_positive)
  have "date (pts ! i) < date (pts ! j)" if "i < j" "j < length pts" for i j
  proof -
    have "(i + 1) * step < (j + 1) * step" using that(1) pos by simp
    then show ?thesis using that dates [of i] dates [of j] by simp
  qed
  then have sorted: "sorted_wrt (<) (map date pts)"
    by (simp add: sorted_wrt_iff_nth_less)
  have fields: "\<forall>i < length pts.
                 daysAhead (pts ! i) = (i + 1) * (total_days div get_prediction_points timeframe)
                 \<and> date (pts ! i) = index (last df) + int (daysAhead (pts ! i))"
    using days dates unfolding step_def by simp
  have run: "\<exists>pts. predict_future tk s df symbol timeframe = (Inr pts, s)
           \<and> length pts = get_prediction_points timeframe
           \<and> (\<forall>i < length pts.
                 daysAhead (pts ! i) = (i + 1) * (total_days div get_prediction_points timeframe)
                 \<and> date (pts ! i) = index (last df) + int (daysAhead (pts ! i)))
           \<and> sorted_wrt (<) (map date pts)"
    using pf' len fields sorted by (intro exI [of _ pts] conjI)
  have p: "get_prediction_points ''1M'' = 30" "get_prediction_points ''6M'' = 26"
       "get_prediction_points ''1Y'' = 52" "get_prediction_points ''5Y'' = 60"
    by (simp_all add: get_prediction_points_def dict_get_def)
  have d: "TIMEFRAME_DAYS ''1M'' = Some 30" "TIMEFRAME_DAYS ''6M'' = Some 180"
       "TIMEFRAME_DAYS ''1Y'' = Some 365" "TIMEFRAME_DAYS ''5Y'' = Some 1825"
    by (simp_all add: TIMEFRAME_DAYS_def)
  have q: "(30 :: nat) div 30 = 1" "(180 :: nat) div 26 = 6"
       "(365 :: nat) div 52 = 7" "(1825 :: nat) div 60 = 30"
    by simp_all
  show ?thesis
    by (intro conjI run p d q)
qed

text \<open>
  Claim C2. Every run of \<^verbatim>\<open>predict_future\<close> that produces points, with a cached model or
  with one trained in the run, produces the points of the horizon, the \<open>i\<close>-th at
  \<open>daysAhead = i \<times> \<lfloor>total_days / points\<rfloor>\<close>, and each with the confidence
  \<open>max(0, 100 - (daysAhead / total_days) \<times> 50)\<close>. The clamp at 0 is never active: the
  confidence is the linear value \<open>100 - (daysAhead / total_days) \<times> 50\<close>, it decreases
  strictly from point to point, the first point has less than 100 and the last at least 0,
  and 50 is the floor, reached exactly by a point at \<open>daysAhead = total_days\<close>. The last
  point is at 30, 156, 364 and 1800 days for 1M, 6M, 1Y and 5Y, with the confidence 50,
  170/3, 3660/73 and 3700/73.
\<close>

theorem confidence_decay:
  assumes "predict_future tk s df symbol timeframe = (Inr pts, s')" and "pts \<noteq> []"
  shows "\<exists>total_days.
           TIMEFRAME_DAYS timeframe = Some total_days
         \<and> length pts = get_prediction_points timeframe
         \<and> (\<forall>i < length pts.
               daysAhead (pts ! i) = (i + 1) * (total_days div get_prediction_points timeframe)
             \<and> confidence (pts ! i) = max 0 (100 - real (daysAhead (pts ! i)) / real total_days * 50)
             \<and> confidence (pts ! i) = 100 - real (daysAhead (pts ! i)) / real total_days * 50
             \<and> 50 \<le> confidence (pts ! i) \<and> confidence (pts ! i) < 100
             \<and> (confidence (pts ! i) = 50 \<longleftrightarrow> daysAhead (pts ! i) = total_days))
         \<and> (\<forall>i j. i < j \<and> j < length pts \<longrightarrow>
               daysAhead (pts ! i) < daysAhead (pts ! j)
             \<and> confidence (pts ! j) < confidence (pts ! i))
         \<and> (\<forall>p \<in> set pts. \<forall>q \<in> set pts.
               daysAhead p \<le> daysAhead q \<longrightarrow> confidence q \<le> confidence p)
         \<and> confidence (hd pts) \<le> 100 \<and> 0 \<le> confidence (last pts)
         \<and> (timeframe = ''1M'' \<longrightarrow> daysAhead (last pts) = 30 \<and> confidence (last pts) = 50)
         \<and> (timeframe = ''6M'' \<longrightarrow> daysAhead (last pts) = 156 \<and> confidence (last pts) = 170 / 3)
         \<and> (timeframe = ''1Y'' \<longrightarrow> daysAhead (last pts) = 364 \<and> confidence (last pts) = 3660 / 73)
         \<and> (timeframe = ''5Y'' \<longrightarrow> daysAhead (last pts) = 1800 \<and> confidence (last pts) = 3700 / 73)"
proof -
  from predict_future_points [OF assms]
  obtain total_days last_date price vol base recent_trend
    where td: "TIMEFRAME_DAYS timeframe = Some total_days"
      and pts: "pts = map (forecast_at timeframe total_days
                         (total_days div get_prediction_points timeframe)
                         last_date price vol base recent_trend)
                    [0..<get_prediction_points timeframe]"
    by (elim exE conjE)
  define step where "step = total_days div get_prediction_points timeframe"
  define P where "P = get_prediction_points timeframe"
  note hb = horizon_bound [OF td, folded step_def P_def]
  have len: "length pts = P" by (simp add: pts P_def)
  have days: "daysAhead (pts ! i) = (i + 1) * step" if "i < P" for i
    using that by (simp add: pts forecast_at_fields step_def P_def)
  have conf: "confidence (pts ! i) = confidence_score (daysAhead (pts ! i)) total_days" if "i < P" for i
    using that by (simp add: pts forecast_at_fields step_def P_def)
  have pos: "0 < step" unfolding step_def using td by (rule step_positive)
  have within: "daysAhead (pts ! i) \<le> total_days" if "i < P" for i
  proof -
    have "i + 1 \<le> P" using that by simp
    then have "(i + 1) * step \<le> P * step" by (rule mult_le_mono1)
    with hb(1) days [OF that] show ?thesis by linarith
  qed
  have positive: "0 < daysAhead (pts ! i)" if "i < P" for i
    using days [OF that] pos by simp
  have point: "daysAhead (pts ! i) = (i + 1) * step
             \<and> confidence (pts ! i) = max 0 (100 - real (daysAhead (pts ! i)) / real total_days * 50)
             \<and> confidence (pts ! i) = 100 - real (daysAhead (pts ! i)) / real total_days * 50
             \<and> 50 \<le> confidence (pts ! i) \<and> confidence (pts ! i) < 100
             \<and> (confidence (pts ! i) = 50 \<longleftrightarrow> daysAhead (pts ! i) = total_days)"
    if i: "i < P" for i
  proof (intro conjI)
    show "daysAhead (pts ! i) = (i + 1) * step" using i by (rule days)
    show "confidence (pts ! i) = max 0 (100 - real (daysAhead (pts ! i)) / real total_days * 50)"
      by (simp only: conf [OF i] confidence_score_def)
    show lin: "confidence (pts ! i) = 100 - real (daysAhead (pts ! i)) / real total_days * 50"
      by (simp only: conf [OF i] confidence_score_linear [OF within [OF i] hb(2)])
    show "50 \<le> confidence (pts ! i)"
      by (simp only: conf [OF i] confidence_score_floor [OF within [OF i] hb(2)])
    have "0 < real (daysAhead (pts ! i)) / real total_days"
      using positive [OF i] hb(2) by simp
    then have "0 < real (daysAhead (pts ! i)) / real total_days * 50"
      by (rule mult_pos_pos) simp
    then show "confidence (pts ! i) < 100" unfolding lin by linarith
    show "confidence (pts ! i) = 50 \<longleftrightarrow> daysAhead (pts ! i) = total_days"
      by (simp only: conf [OF i] confidence_score_fifty [OF within [OF i] hb(2)])
  qed
  have strict: "daysAhead (pts ! i) < daysAhead (pts ! j)
             \<and> confidence (pts ! j) < confidence (pts ! i)"
    if ij: "i < j" "j < P" for i j
  proof -
    have i: "i < P" using ij by simp
    have "(i + 1) * step < (j + 1) * step" using ij(1) pos by simp
    then have lt: "daysAhead (pts ! i) < daysAhead (pts ! j)"
      by (simp only: days [OF i] days [OF ij(2)])
    from confidence_score_strict [OF lt within [OF ij(2)]]
    have "confidence (pts ! j) < confidence (pts ! i)"
      by (simp only: conf [OF i] conf [OF ij(2)])
    with lt show ?thesis by (rule conjI)
  qed
  have mono: "confidence q \<le> confidence p"
    if "p \<in> set pts" "q \<in> set pts" "daysAhead p \<le> daysAhead q" for p q
  proof -
    from that(1) obtain i where i: "i < P" and p: "p = pts ! i"
      by (auto simp: in_set_conv_nth len)
    from that(2) obtain j where j: "j < P" and q: "q = pts ! j"
      by (auto simp: in_set_conv_nth len)
    from confidence_score_mono [OF that(3), of total_days] show ?thesis
      by (simp only: p q conf [OF i] conf [OF j])
  qed
  have first: "confidence (hd pts) \<le> 100"
  proof -
    have "hd pts = pts ! 0" using assms(2) by (simp add: hd_conv_nth)
    with point [OF hb(3)] show ?thesis by simp
  qed
  have last_idx: "last pts = pts ! (P - 1)"
    using assms(2) by (simp add: last_conv_nth len)
  have last_lt: "P - 1 < P" using hb(3) by simp
  have final: "0 \<le> confidence (last pts)"
    using point [OF last_lt] unfolding last_idx by linarith
  have ld: "daysAhead (pts ! (P - 1)) = P * step"
    using days [OF last_lt] hb(3) by simp
  have lc: "confidence (pts ! (P - 1))
              = 100 - real (daysAhead (pts ! (P - 1))) / real total_days * 50"
    using point [OF last_lt] by (elim conjE)
  have last_days: "daysAhead (last pts) = P * step"
    by (simp only: last_idx ld)
  have last_conf: "confidence (last pts) = 100 - real (P * step) / real total_days * 50"
    by (simp only: last_idx lc ld)
  note hc = horizon_cases [OF td, folded P_def]
  have m1: "timeframe = ''1M'' \<longrightarrow> daysAhead (last pts) = 30 \<and> confidence (last pts) = 50"
    using hc by (auto simp: last_days last_conf step_def P_def)
  have m6: "timeframe = ''6M'' \<longrightarrow> daysAhead (last pts) = 156 \<and> confidence (last pts) = 170 / 3"
    using hc by (auto simp: last_days last_conf step_def P_def)
  have y1: "timeframe = ''1Y'' \<longrightarrow> daysAhead (last pts) = 364 \<and> confidence (last pts) = 3660 / 73"
    using hc by (auto simp: last_days last_conf step_def P_def)
  have y5: "timeframe = ''5Y'' \<longrightarrow> daysAhead (last pts) = 1800 \<and> confidence (last pts) = 3700 / 73"
    using hc by (auto simp: last_days last_conf step_def P_def)
  have point_all: "\<forall>i < length pts.
               daysAhead (pts ! i) = (i + 1) * (total_days div get_prediction_points timeframe)
             \<and> confidence (pts ! i) = max 0 (100 - real (daysAhead (pts ! i)) / real total_days * 50)
             \<and> confidence (pts ! i) = 100 - real (daysAhead (pts ! i)) / real total_days * 50
             \<and> 50 \<le> confidence (pts ! i) \<and> confidence (pts ! i) < 100
             \<and> (confidence (pts ! i) = 50 \<longleftrightarrow> daysAhead (pts ! i) = total_days)"
    using point unfolding len step_def by blast
  have strict_all: "\<forall>i j. i < j \<and> j < length pts \<longrightarrow>
               daysAhead (pts ! i) < daysAhead (pts ! j)
             \<and> confidence (pts ! j) < confidence (pts ! i)"
    using strict unfolding len by blast
  have antitone_all: "\<forall>p \<in> set pts. \<forall>q \<in> set pts.
               daysAhead p \<le> daysAhead q \<longrightarrow> confidence q \<le> confidence p"
    using mono by blast
  have len': "length pts = get_prediction_points timeframe" using len by (simp add: P_def)
  show ?thesis
    by (intro exI [of _ total_days] conjI td len' point_all strict_all antitone_all first final m1 m6 y1 y5)
qed

section \<open>Examples of forecast runs\<close>

lemma kept_rising_6M:
  assumes "50 \<le> n" and "n < 400"
  shows "dropna (all_columns baseline_toolkit (rising_series n) ''6M'')
           (target_column (rising_series n) ''6M'') (length (rising_series n)) = [49..<n - 6]"
proof -
  have "n div 100 \<le> 3" using assms by arith
  then have lag: "min 10 (max 3 (n div 100)) = 3" by simp
  have shift_eq: "dict_get TIMEFRAME_DAYS ''6M'' 30 div 30 = 6"
    by (simp add: dict_get_def TIMEFRAME_DAYS_def)
  have "dropna (all_columns baseline_toolkit (rising_series n) ''6M'')
           (target_column (rising_series n) ''6M'') (length (rising_series n))
        = filter (\<lambda>i. 49 \<le> i \<and> i < n - 6) [0..<n]"
    unfolding dropna_def length_rising
  proof (rule filter_cong [OF refl])
    fix i assume "i \<in> set [0..<n]"
    then have i: "i < n" by simp
    show "(list_all (\<lambda>c. cell_at (snd c) i \<noteq> None)
             (all_columns baseline_toolkit (rising_series n) ''6M'')
           \<and> cell_at (target_column (rising_series n) ''6M'') i \<noteq> None)
          = (49 \<le> i \<and> i < n - 6)"
      using assms i
      by (auto simp: all_columns_def feature_windows_def baseline_toolkit_def exact_indicators_def
          lag_columns_def lag lags_three length_rising target_column_def shift_eq
          cell_at_rolling_mean cell_at_diff_by cell_at_shift_Some
          cell_at_shift_pct [OF closes_rising]
          simp del: not_None_eq map_map)
  qed
  also have "\<dots> = [49..<n - 6]" by (rule filter_interval) simp
  finally show ?thesis .
qed

lemma trained_keys:
  assumes "\<not> length (rows (fst (prepare_features tk df timeframe))) < dict_get min_samples timeframe 50"
  shows "models (snd (train_model tk s df symbol timeframe)) (model_key symbol timeframe) \<noteq> None"
    and "scalers (snd (train_model tk s df symbol timeframe)) (model_key symbol timeframe) \<noteq> None"
  by (simp_all add: train_model_trained [OF assms] Let_def)

lemma rows_single:
  assumes "length df \<le> 1"
  shows "rows (fst (prepare_features tk df timeframe)) = []"
proof -
  let ?ks = "dropna (all_columns tk df timeframe) (target_column df timeframe) (length df)"
  have "?ks = []"
  proof (rule ccontr)
    assume "?ks \<noteq> []"
    then have i: "hd ?ks \<in> set ?ks" by simp
    then have "hd ?ks < length df" by (rule dropna_bound)
    with assms have "hd ?ks = 0" by simp
    with i first_position_dropped [of tk df timeframe] show False by simp
  qed
  then show ?thesis by (simp add: rows_prepare)
qed

lemma predict_future_no_rows:
  assumes "models s (model_key symbol timeframe) = Some model"
    and "scalers s (model_key symbol timeframe) = Some scaler"
    and "rows (fst (prepare_features tk df timeframe)) = []"
  shows "predict_future tk s df symbol timeframe = (Inr [], s)"
  using assms by (simp add: predict_future_def Let_def case_prod_beta)

lemma rows_rising_6M_120:
  "length (rows (fst (prepare_features baseline_toolkit (rising_series 120) ''6M''))) = 65"
  by (simp add: length_rows kept_rising_6M)

lemma rising_nonempty: "0 < n \<Longrightarrow> rising_series n \<noteq> []"
  using length_rising [of n] by auto

lemma days_6M: "TIMEFRAME_DAYS ''6M'' = Some 180"
  by (simp add: TIMEFRAME_DAYS_def)

lemma points_6M: "get_prediction_points ''6M'' = 26"
  by (simp add: get_prediction_points_def dict_get_def)

lemma row_width:
  assumes "r \<in> set (rows (fst (prepare_features tk df timeframe)))"
  shows "length (snd r) = length (columns (fst (prepare_features tk df timeframe)))"
  using assms by (auto simp: prepare_features_def Let_def)

lemma standard_fit_lengths:
  "length (fst (standard_fit (row # Z))) = length row"
  "length (snd (standard_fit (row # Z))) = length row"
  by (simp_all add: standard_fit_def)

lemma baseline_fields:
  "scaler_fit baseline_toolkit = standard_fit"
  "scaler_transform baseline_toolkit = standard_transform"
  "(if c then fit_gradient_boosting baseline_toolkit else fit_random_forest baseline_toolkit) Z y
     = (length (hd Z), list_mean y)"
  "scaler_n_features baseline_toolkit sc = length (fst sc)"
  "model_n_features baseline_toolkit m = fst m"
  by (simp_all add: baseline_toolkit_def)

lemma baseline_trained_widths:
  assumes "\<not> length (rows (fst (prepare_features baseline_toolkit df timeframe)))
             < dict_get min_samples timeframe 50"
  shows "\<exists>model scaler.
           models (snd (train_model baseline_toolkit s df symbol timeframe))
             (model_key symbol timeframe) = Some model
         \<and> scalers (snd (train_model baseline_toolkit s df symbol timeframe))
             (model_key symbol timeframe) = Some scaler
         \<and> scaler_n_features baseline_toolkit scaler
             = length (columns (fst (prepare_features baseline_toolkit df timeframe)))
         \<and> model_n_features baseline_toolkit model
             = length (columns (fst (prepare_features baseline_toolkit df timeframe)))"
proof -
  define X where "X = rows (fst (prepare_features baseline_toolkit df timeframe))"
  define k where "k = split_idx (length X)"
  define w where "w = length (columns (fst (prepare_features baseline_toolkit df timeframe)))"
  have "30 \<le> length X"
    using assms min_samples_ge [of timeframe] by (simp add: X_def)
  then have kpos: "0 < k" by (simp add: k_def split_idx_eq)
  then obtain r Z where tk: "take k X = r # Z"
    using \<open>30 \<le> length X\<close> by (cases "take k X") auto
  have "r \<in> set X" using tk by (metis in_set_takeD list.set_intros(1))
  then have r: "length (snd r) = w"
    unfolding X_def w_def by (rule row_width)
  have m: "models (snd (train_model baseline_toolkit s df symbol timeframe))
             (model_key symbol timeframe)
           = Some (length (standard_transform (standard_fit (snd r # map snd Z)) (snd r)),
                   list_mean (map snd (take k (snd (prepare_features baseline_toolkit df timeframe)))))"
    by (simp add: train_model_trained [OF assms] Let_def X_def [symmetric] k_def [symmetric] tk
        baseline_fields del: set_simps)
  have sc: "scalers (snd (train_model baseline_toolkit s df symbol timeframe))
             (model_key symbol timeframe)
           = Some (standard_fit (snd r # map snd Z))"
    by (simp add: train_model_trained [OF assms] Let_def X_def [symmetric] k_def [symmetric] tk
        baseline_fields del: set_simps)
  have w1: "scaler_n_features baseline_toolkit (standard_fit (snd r # map snd Z)) = w"
    by (simp add: baseline_fields standard_fit_lengths r)
  have w2: "model_n_features baseline_toolkit
              (length (standard_transform (standard_fit (snd r # map snd Z)) (snd r)),
               list_mean (map snd (take k (snd (prepare_features baseline_toolkit df timeframe))))) = w"
    by (simp add: baseline_fields standard_transform_def standard_fit_lengths r)
  from m sc w1 w2 show ?thesis unfolding w_def by blast
qed

lemma kept_rising_6M_short:
  assumes "20 \<le> n" and "n < 50"
  shows "dropna (all_columns baseline_toolkit (rising_series n) ''6M'')
           (target_column (rising_series n) ''6M'') (length (rising_series n)) = [19..<n - 6]"
proof -
  have lag: "min 10 (max 3 (n div 100)) = 3" using assms by simp
  have shift_eq: "dict_get TIMEFRAME_DAYS ''6M'' 30 div 30 = 6"
    by (simp add: dict_get_def TIMEFRAME_DAYS_def)
  have "dropna (all_columns baseline_toolkit (rising_series n) ''6M'')
           (target_column (rising_series n) ''6M'') (length (rising_series n))
        = filter (\<lambda>i. 19 \<le> i \<and> i < n - 6) [0..<n]"
    unfolding dropna_def length_rising
  proof (rule filter_cong [OF refl])
    fix i assume "i \<in> set [0..<n]"
    then have i: "i < n" by simp
    show "(list_all (\<lambda>c. cell_at (snd c) i \<noteq> None)
             (all_columns baseline_toolkit (rising_series n) ''6M'')
           \<and> cell_at (target_column (rising_series n) ''6M'') i \<noteq> None)
          = (19 \<le> i \<and> i < n - 6)"
      using assms i
      by (auto simp: all_columns_def feature_windows_def baseline_toolkit_def exact_indicators_def
          lag_columns_def lag lags_three length_rising target_column_def shift_eq
          cell_at_rolling_mean cell_at_diff_by cell_at_shift_Some
          cell_at_shift_pct [OF closes_rising]
          simp del: not_None_eq map_map)
  qed
  also have "\<dots> = [19..<n - 6]" by (rule filter_interval) simp
  finally show ?thesis .
qed

lemma columns_6M_120:
  "length (columns (fst (prepare_features baseline_toolkit (rising_series 120) ''6M''))) = 13"
  by (simp add: prepare_features_def Let_def all_columns_def feature_windows_def
      baseline_toolkit_def exact_indicators_def lag_columns_def lags_three length_rising
      excluded_columns_def)

lemma columns_6M_30:
  "length (columns (fst (prepare_features baseline_toolkit (rising_series 30) ''6M''))) = 12"
  by (simp add: prepare_features_def Let_def all_columns_def feature_windows_def
      baseline_toolkit_def exact_indicators_def lag_columns_def lags_three length_rising
      excluded_columns_def)

lemma floor_6M: "dict_get min_samples ''6M'' 50 = 60"
  by (simp add: dict_get_def min_samples_def)

lemma trained_6M_entries:
  "\<exists>model scaler.
     models trained_6M (model_key ''ACME'' ''6M'') = Some model
   \<and> scalers trained_6M (model_key ''ACME'' ''6M'') = Some scaler
   \<and> scaler_n_features baseline_toolkit scaler = 13
   \<and> model_n_features baseline_toolkit model = 13"
proof -
  have ge: "\<not> length (rows (fst (prepare_features baseline_toolkit (rising_series 120) ''6M'')))
            < dict_get min_samples ''6M'' 50"
    by (simp add: rows_rising_6M_120 floor_6M)
  from baseline_trained_widths [OF ge, of empty_predictor "''ACME''"]
  show ?thesis unfolding trained_6M_def columns_6M_120 .
qed

theorem forecast_points_and_days_witness:
  "models trained_6M (model_key ''ACME'' ''6M'') \<noteq> None
   \<and> scalers trained_6M (model_key ''ACME'' ''6M'') \<noteq> None
   \<and> rows (fst (prepare_features baseline_toolkit (rising_series 120) ''6M'')) \<noteq> []
   \<and> length (columns (fst (prepare_features baseline_toolkit (rising_series 120) ''6M''))) = 13
   \<and> scaler_n_features baseline_toolkit (the (scalers trained_6M (model_key ''ACME'' ''6M''))) = 13
   \<and> model_n_features baseline_toolkit (the (models trained_6M (model_key ''ACME'' ''6M''))) = 13
   \<and> TIMEFRAME_DAYS ''6M'' = Some 180
   \<and> (\<exists>pts. predict_future baseline_toolkit trained_6M (rising_series 120) ''ACME'' ''6M''
               = (Inr pts, trained_6M)
         \<and> length pts = 26
         \<and> (\<forall>i < 26. daysAhead (pts ! i) = (i + 1) * 6))"
proof -
  from trained_6M_entries
  obtain model scaler where m: "models trained_6M (model_key ''ACME'' ''6M'') = Some model"
    and sc: "scalers trained_6M (model_key ''ACME'' ''6M'') = Some scaler"
    and ws: "scaler_n_features baseline_toolkit scaler = 13"
    and wm: "model_n_features baseline_toolkit model = 13"
    by (elim exE conjE)
  have ne: "rows (fst (prepare_features baseline_toolkit (rising_series 120) ''6M'')) \<noteq> []"
    using rows_rising_6M_120 by auto
  have ws': "scaler_n_features baseline_toolkit scaler
               = length (columns (fst (prepare_features baseline_toolkit (rising_series 120) ''6M'')))"
    by (simp only: ws columns_6M_120)
  have wm': "model_n_features baseline_toolkit model
               = length (columns (fst (prepare_features baseline_toolkit (rising_series 120) ''6M'')))"
    by (simp only: wm columns_6M_120)
  from forecast_points_and_days [OF m sc ne ws' wm' days_6M]
  obtain pts where "predict_future baseline_toolkit trained_6M (rising_series 120) ''ACME'' ''6M''
               = (Inr pts, trained_6M)"
    and "length pts = 26"
    and "\<forall>i < length pts. daysAhead (pts ! i) = (i + 1) * (180 div 26)"
    unfolding points_6M by blast
  then have run: "\<exists>pts. predict_future baseline_toolkit trained_6M (rising_series 120) ''ACME'' ''6M''
               = (Inr pts, trained_6M)
         \<and> length pts = 26
         \<and> (\<forall>i < 26. daysAhead (pts ! i) = (i + 1) * 6)"
    by (intro exI [of _ pts]) simp
  have a: "models trained_6M (model_key ''ACME'' ''6M'') \<noteq> None" by (simp add: m)
  have b: "scalers trained_6M (model_key ''ACME'' ''6M'') \<noteq> None" by (simp add: sc)
  have c: "scaler_n_features baseline_toolkit (the (scalers trained_6M (model_key ''ACME'' ''6M''))) = 13"
    by (simp add: sc ws)
  have d: "model_n_features baseline_toolkit (the (models trained_6M (model_key ''ACME'' ''6M''))) = 13"
    by (simp add: m wm)
  show ?thesis by (intro conjI a b ne columns_6M_120 c d days_6M run)
qed

text \<open>
  Three runs with the predictor trained for 6M on 120 rows. A series of one row has no
  complete feature row and gives no point. A series of 30 rows is too short for the
  50-row moving average, so its table has one column less than the table the scaler was
  fitted on (12 against 13 columns with the toolkit of the examples), and the run raises.
  On the 120 rows the first point is 6 days ahead, which is not 180/26.
\<close>

theorem forecast_points_counterexample:
  "models trained_6M (model_key ''ACME'' ''6M'') \<noteq> None
   \<and> rising_series 1 \<noteq> []
   \<and> fst (predict_future baseline_toolkit trained_6M (rising_series 1) ''ACME'' ''6M'') = Inr []
   \<and> get_prediction_points ''6M'' = 26
   \<and> rising_series 30 \<noteq> []
   \<and> fst (predict_future baseline_toolkit trained_6M (rising_series 30) ''ACME'' ''6M'')
       = Inl (ValueError ''X has 12 features, but StandardScaler is expecting 13 features as input.'')
   \<and> rising_series 120 \<noteq> []
   \<and> daysAhead (projr (fst (predict_future baseline_toolkit trained_6M (rising_series 120)
                               ''ACME'' ''6M'')) ! 0) = 6
   \<and> real (daysAhead (projr (fst (predict_future baseline_toolkit trained_6M (rising_series 120)
                               ''ACME'' ''6M'')) ! 0)) \<noteq> 1 * (180 / 26)"
proof -
  from trained_6M_entries
  obtain model scaler where m: "models trained_6M (model_key ''ACME'' ''6M'') = Some model"
    and sc: "scalers trained_6M (model_key ''ACME'' ''6M'') = Some scaler"
    and ws: "scaler_n_features baseline_toolkit scaler = 13"
    and wm: "model_n_features baseline_toolkit model = 13"
    by (elim exE conjE)
  have cached: "models trained_6M (model_key ''ACME'' ''6M'') \<noteq> None" by (simp add: m)
  have "rows (fst (prepare_features baseline_toolkit (rising_series 1) ''6M'')) = []"
    by (rule rows_single) (simp add: length_rising)
  from predict_future_no_rows [OF m sc this]
  have none: "fst (predict_future baseline_toolkit trained_6M (rising_series 1) ''ACME'' ''6M'') = Inr []"
    by simp
  have "length (rows (fst (prepare_features baseline_toolkit (rising_series 30) ''6M''))) = 5"
    by (simp add: length_rows kept_rising_6M_short)
  then have ne30: "rows (fst (prepare_features baseline_toolkit (rising_series 30) ''6M'')) \<noteq> []"
    by auto
  have differ: "length (columns (fst (prepare_features baseline_toolkit (rising_series 30) ''6M'')))
                  \<noteq> scaler_n_features baseline_toolkit scaler"
    by (simp add: columns_6M_30 ws)
  have msg: "n_features_message 12 ''StandardScaler'' 13
               = ''X has 12 features, but StandardScaler is expecting 13 features as input.''"
    by code_simp
  from predict_future_scaler_mismatch [OF m sc ne30 differ]
  have raised: "fst (predict_future baseline_toolkit trained_6M (rising_series 30) ''ACME'' ''6M'')
       = Inl (ValueError ''X has 12 features, but StandardScaler is expecting 13 features as input.'')"
    by (simp add: columns_6M_30 ws msg)
  have ne: "rows (fst (prepare_features baseline_toolkit (rising_series 120) ''6M'')) \<noteq> []"
    using rows_rising_6M_120 by auto
  have ws': "scaler_n_features baseline_toolkit scaler
               = length (columns (fst (prepare_features baseline_toolkit (rising_series 120) ''6M'')))"
    by (simp only: ws columns_6M_120)
  have wm': "model_n_features baseline_toolkit model
               = length (columns (fst (prepare_features baseline_toolkit (rising_series 120) ''6M'')))"
    by (simp only: wm columns_6M_120)
  from predict_future_cached [OF m sc ne ws' wm' days_6M]
  obtain base recent_trend where
    "predict_future baseline_toolkit trained_6M (rising_series 120) ''ACME'' ''6M'' =
       (Inr (map (forecast_at ''6M'' 180 (180 div get_prediction_points ''6M'')
                    (index (last (rising_series 120))) (Close (last (rising_series 120)))
                    (series_std baseline_toolkit
                       (pct_change baseline_toolkit (map Close (rising_series 120))))
                    base recent_trend)
               [0..<get_prediction_points ''6M'']), trained_6M)"
    by (elim exE)
  then have first: "daysAhead (projr (fst (predict_future baseline_toolkit trained_6M
                       (rising_series 120) ''ACME'' ''6M'')) ! 0) = 6"
    by (simp add: points_6M forecast_at_fields)
  have differs: "real (daysAhead (projr (fst (predict_future baseline_toolkit trained_6M
                       (rising_series 120) ''ACME'' ''6M'')) ! 0)) \<noteq> 1 * (180 / 26)"
    unfolding first by simp
  show ?thesis
    by (intro conjI cached rising_nonempty none points_6M raised first differs) simp_all
qed

lemma lazy_run_rising_50:
  "\<exists>pts. predict_future baseline_toolkit empty_predictor (rising_series 50) ''ACME'' ''1M''
           = (Inr pts, snd (train_model baseline_toolkit empty_predictor (rising_series 50)
                              ''ACME'' ''1M''))
        \<and> length pts = 30"
proof -
  let ?df = "rising_series 50"
  let ?s1 = "snd (train_model baseline_toolkit empty_predictor ?df ''ACME'' ''1M'')"
  have len: "length (rows (fst (prepare_features baseline_toolkit ?df ''1M''))) = 30"
    by (simp add: rows_rising_1M)
  have ge: "\<not> length (rows (fst (prepare_features baseline_toolkit ?df ''1M'')))
              < dict_get min_samples ''1M'' 50"
    by (simp add: len floor_1M)
  from baseline_trained_widths [OF ge, of empty_predictor "''ACME''"]
  obtain model scaler where m: "models ?s1 (model_key ''ACME'' ''1M'') = Some model"
    and sc: "scalers ?s1 (model_key ''ACME'' ''1M'') = Some scaler"
    and ws: "scaler_n_features baseline_toolkit scaler
               = length (columns (fst (prepare_features baseline_toolkit ?df ''1M'')))"
    and wm: "model_n_features baseline_toolkit model
               = length (columns (fst (prepare_features baseline_toolkit ?df ''1M'')))"
    by (elim exE conjE)
  have ne: "rows (fst (prepare_features baseline_toolkit ?df ''1M'')) \<noteq> []"
    using len by auto
  have lazy: "?s1 = (if models empty_predictor (model_key ''ACME'' ''1M'') = None
                     then snd (train_model baseline_toolkit empty_predictor ?df ''ACME'' ''1M'')
                     else empty_predictor)"
    by (simp add: empty_predictor_def)
  have days: "TIMEFRAME_DAYS ''1M'' = Some 30" by (simp add: TIMEFRAME_DAYS_def)
  have pts30: "get_prediction_points ''1M'' = 30"
    by (simp add: get_prediction_points_def dict_get_def)
  from predict_future_run [OF lazy m sc ne ws wm days]
  obtain base recent_trend where
    "predict_future baseline_toolkit empty_predictor ?df ''ACME'' ''1M'' =
       (Inr (map (forecast_at ''1M'' 30 (30 div get_prediction_points ''1M'')
                    (index (last ?df)) (Close (last ?df))
                    (series_std baseline_toolkit (pct_change baseline_toolkit (map Close ?df)))
                    base recent_trend)
               [0..<get_prediction_points ''1M'']), ?s1)"
    by (elim exE)
  then show ?thesis by (simp add: pts30)
qed

theorem confidence_decay_witness:
  "models empty_predictor (model_key ''ACME'' ''1M'') = None
   \<and> (\<exists>pts s'. predict_future baseline_toolkit empty_predictor (rising_series 50) ''ACME'' ''1M''
                  = (Inr pts, s')
         \<and> pts \<noteq> []
         \<and> length pts = 30
         \<and> daysAhead (last pts) = 30
         \<and> confidence (last pts) = 50
         \<and> confidence (hd pts) \<le> 100
         \<and> (\<forall>i < length pts. confidence (pts ! i) = 100 - real (daysAhead (pts ! i)) / 30 * 50))"
proof -
  from lazy_run_rising_50 obtain pts where
    run: "predict_future baseline_toolkit empty_predictor (rising_series 50) ''ACME'' ''1M''
           = (Inr pts, snd (train_model baseline_toolkit empty_predictor (rising_series 50)
                              ''ACME'' ''1M''))"
    and len: "length pts = 30"
    by (elim exE conjE)
  have ne: "pts \<noteq> []" using len by auto
  have days: "TIMEFRAME_DAYS ''1M'' = Some 30" by (simp add: TIMEFRAME_DAYS_def)
  have pts30: "get_prediction_points ''1M'' = 30"
    by (simp add: get_prediction_points_def dict_get_def)
  from confidence_decay [OF run ne]
  have facts: "daysAhead (last pts) = 30" "confidence (last pts) = 50"
    "confidence (hd pts) \<le> 100"
    "\<forall>i < length pts. confidence (pts ! i) = 100 - real (daysAhead (pts ! i)) / 30 * 50"
    by (simp_all add: days pts30 len)
  have "\<exists>pts s'. predict_future baseline_toolkit empty_predictor (rising_series 50) ''ACME'' ''1M''
                  = (Inr pts, s')
         \<and> pts \<noteq> []
         \<and> length pts = 30
         \<and> daysAhead (last pts) = 30
         \<and> confidence (last pts) = 50
         \<and> confidence (hd pts) \<le> 100
         \<and> (\<forall>i < length pts. confidence (pts ! i) = 100 - real (daysAhead (pts ! i)) / 30 * 50)"
    using run ne len facts by (intro exI [of _ pts] exI conjI)
  moreover have "models empty_predictor (model_key ''ACME'' ''1M'') = None"
    by (simp add: empty_predictor_def)
  ultimately show ?thesis by (intro conjI)
qed

section \<open>The endpoint: recommendation and timeframe check\<close>

lemma recommend_cases:
  "trend = ''Bullish'' \<Longrightarrow> 0.5 < score \<Longrightarrow> recommend trend score = (''BUY'', ''High'')"
  "trend = ''Bullish'' \<Longrightarrow> score \<le> 0.5 \<Longrightarrow> recommend trend score = (''BUY'', ''Medium'')"
  "trend = ''Bearish'' \<Longrightarrow> 0.5 < score \<Longrightarrow> recommend trend score = (''SELL'', ''High'')"
  "trend \<noteq> ''Bullish'' \<Longrightarrow> \<not> (trend = ''Bearish'' \<and> 0.5 < score)
     \<Longrightarrow> recommend trend score = (''HOLD'', ''Low'')"
  by (auto simp: recommend_def)

lemma predict_live_stock_response:
  assumes "predict_live_stock tk sp s symbol timeframe = (Inr resp, s')"
  shows "\<exists>period df tr s1.
           period_map timeframe = Some period
         \<and> get_stock_data sp symbol period = Some df
         \<and> train_model tk s df symbol timeframe = (Trained tr, s1)
         \<and> resp_trend resp = analyze_trend df timeframe
         \<and> modelMetrics resp = metrics tr
         \<and> recommendation resp = fst (recommend (resp_trend resp) (r2 (modelMetrics resp)))
         \<and> resp_confidence resp = snd (recommend (resp_trend resp) (r2 (modelMetrics resp)))"
  using assms
  by (auto simp: predict_live_stock_def Let_def
      split: if_splits option.splits prod.splits train_result.splits sum.splits)

lemma predict_live_stock_trained:
  assumes "timeframe \<in> set valid_timeframes" and "is_available sp"
    and "period_map timeframe = Some period"
    and "get_stock_data sp symbol period = Some df" and "df \<noteq> []"
    and "train_model tk s df symbol timeframe = (Trained tr, s1)"
    and "predict_future tk s1 df symbol timeframe = (Inr pts, s2)"
  shows "predict_live_stock tk sp s symbol timeframe =
           (Inr \<lparr>resp_symbol = symbol,
                 resp_timeframe = timeframe,
                 currentPrice = Close (last df),
                 resp_predictions = pts,
                 modelMetrics = metrics tr,
                 resp_trend = analyze_trend df timeframe,
                 priceTargets = get_price_targets (Close (last df)) timeframe (analyze_trend df timeframe),
                 recommendation = fst (recommend (analyze_trend df timeframe) (r2 (metrics tr))),
                 resp_confidence = snd (recommend (analyze_trend df timeframe) (r2 (metrics tr))),
                 predictionPoints = length pts\<rparr>, s2)"
  using assms by (simp add: predict_live_stock_def Let_def iloc_last last_map)

text \<open>
  Claim C5. Every response of the horizon-forecast endpoint follows the trend and R2 policy:
  trend \<open>Bullish\<close> with \<open>R2 > 0.5\<close> gives BUY with High confidence, \<open>Bullish\<close> with
  \<open>R2 \<le> 0.5\<close> gives BUY with Medium confidence, \<open>Bearish\<close> with \<open>R2 > 0.5\<close> gives SELL with
  High confidence, and every other combination gives HOLD with Low confidence; the trend
  is the one \<^verbatim>\<open>analyze_trend\<close> computes on the data of the request and the R2 is the one of
  the training on that data.
\<close>

theorem recommendation_policy:
  assumes "predict_live_stock tk sp s symbol timeframe = (Inr resp, s')"
  shows "(resp_trend resp = ''Bullish'' \<and> 0.5 < r2 (modelMetrics resp)
            \<longrightarrow> recommendation resp = ''BUY'' \<and> resp_confidence resp = ''High'')
       \<and> (resp_trend resp = ''Bullish'' \<and> r2 (modelMetrics resp) \<le> 0.5
            \<longrightarrow> recommendation resp = ''BUY'' \<and> resp_confidence resp = ''Medium'')
       \<and> (resp_trend resp = ''Bearish'' \<and> 0.5 < r2 (modelMetrics resp)
            \<longrightarrow> recommendation resp = ''SELL'' \<and> resp_confidence resp = ''High'')
       \<and> (resp_trend resp \<noteq> ''Bullish'' \<and> \<not> (resp_trend resp = ''Bearish'' \<and> 0.5 < r2 (modelMetrics resp))
            \<longrightarrow> recommendation resp = ''HOLD'' \<and> resp_confidence resp = ''Low'')
       \<and> (\<exists>period df tr s1.
             period_map timeframe = Some period
           \<and> get_stock_data sp symbol period = Some df
           \<and> train_model tk s df symbol timeframe = (Trained tr, s1)
           \<and> resp_trend resp = analyze_trend df timeframe
           \<and> modelMetrics resp = metrics tr)"
proof -
  from predict_live_stock_response [OF assms]
  obtain period df tr s1 where src: "period_map timeframe = Some period"
      "get_stock_data sp symbol period = Some df"
      "train_model tk s df symbol timeframe = (Trained tr, s1)"
      "resp_trend resp = analyze_trend df timeframe"
      "modelMetrics resp = metrics tr"
    and rec: "recommendation resp = fst (recommend (resp_trend resp) (r2 (modelMetrics resp)))"
    and conf: "resp_confidence resp = snd (recommend (resp_trend resp) (r2 (modelMetrics resp)))"
    by blast
  have a: "resp_trend resp = ''Bullish'' \<and> 0.5 < r2 (modelMetrics resp)
            \<longrightarrow> recommendation resp = ''BUY'' \<and> resp_confidence resp = ''High''"
    using rec conf by (simp add: recommend_cases(1))
  have b: "resp_trend resp = ''Bullish'' \<and> r2 (modelMetrics resp) \<le> 0.5
            \<longrightarrow> recommendation resp = ''BUY'' \<and> resp_confidence resp = ''Medium''"
    using rec conf by (simp add: recommend_cases(2))
  have c: "resp_trend resp = ''Bearish'' \<and> 0.5 < r2 (modelMetrics resp)
            \<longrightarrow> recommendation resp = ''SELL'' \<and> resp_confidence resp = ''High''"
    using rec conf by (simp add: recommend_cases(3))
  have d: "resp_trend resp \<noteq> ''Bullish'' \<and> \<not> (resp_trend resp = ''Bearish'' \<and> 0.5 < r2 (modelMetrics resp))
            \<longrightarrow> recommendation resp = ''HOLD'' \<and> resp_confidence resp = ''Low''"
    using rec conf recommend_cases(4) [of "resp_trend resp" "r2 (modelMetrics resp)"] by simp
  have e: "\<exists>period df tr s1.
             period_map timeframe = Some period
           \<and> get_stock_data sp symbol period = Some df
           \<and> train_model tk s df symbol timeframe = (Trained tr, s1)
           \<and> resp_trend resp = analyze_trend df timeframe
           \<and> modelMetrics resp = metrics tr"
    using src by (intro exI [of _ period] exI [of _ df] exI [of _ tr] exI [of _ s1] conjI)
  show ?thesis by (intro conjI a b c d e)
qed

lemma trend_rising_50: "analyze_trend (rising_series 50) ''1M'' = ''Bullish''"
  by code_simp


lemma train_model_succeeds:
  assumes "\<not> length (rows (fst (prepare_features tk df timeframe))) < dict_get min_samples timeframe 50"
  shows "\<exists>tr. train_model tk s df symbol timeframe
                = (Trained tr, snd (train_model tk s df symbol timeframe))"
  by (simp add: train_model_trained [OF assms] Let_def)

lemma days_1M: "TIMEFRAME_DAYS ''1M'' = Some 30"
  by (simp add: TIMEFRAME_DAYS_def)

theorem recommendation_policy_witness:
  "\<exists>resp s'. predict_live_stock baseline_toolkit sample_provider empty_predictor ''ACME'' ''1M''
                = (Inr resp, s')
             \<and> resp_trend resp = ''Bullish'' \<and> recommendation resp = ''BUY''"
proof -
  let ?df = "rising_series 50"
  let ?s1 = "snd (train_model baseline_toolkit empty_predictor ?df ''ACME'' ''1M'')"
  have len: "length (rows (fst (prepare_features baseline_toolkit ?df ''1M''))) = 30"
    by (simp add: rows_rising_1M)
  have ge: "\<not> length (rows (fst (prepare_features baseline_toolkit ?df ''1M'')))
              < dict_get min_samples ''1M'' 50"
    by (simp add: len floor_1M)
  obtain tr where tm: "train_model baseline_toolkit empty_predictor ?df ''ACME'' ''1M'' = (Trained tr, ?s1)"
    using train_model_succeeds [OF ge] by blast
  from baseline_trained_widths [OF ge, of empty_predictor "''ACME''"]
  obtain model scaler where m: "models ?s1 (model_key ''ACME'' ''1M'') = Some model"
    and sc: "scalers ?s1 (model_key ''ACME'' ''1M'') = Some scaler"
    and ws: "scaler_n_features baseline_toolkit scaler
               = length (columns (fst (prepare_features baseline_toolkit ?df ''1M'')))"
    and wm: "model_n_features baseline_toolkit model
               = length (columns (fst (prepare_features baseline_toolkit ?df ''1M'')))"
    by (elim exE conjE)
  have ne: "rows (fst (prepare_features baseline_toolkit ?df ''1M'')) \<noteq> []"
    using len by auto
  from predict_future_cached [OF m sc ne ws wm days_1M]
  obtain pts where pf: "predict_future baseline_toolkit ?s1 ?df ''ACME'' ''1M'' = (Inr pts, ?s1)"
    by blast
  have valid: "''1M'' \<in> set valid_timeframes" by (simp add: valid_timeframes_def)
  have avail: "is_available sample_provider" by (simp add: sample_provider_def)
  have period: "period_map ''1M'' = Some ''6mo''" by (simp add: period_map_def)
  have data: "get_stock_data sample_provider ''ACME'' ''6mo'' = Some ?df"
    by (simp add: sample_provider_def)
  have nonempty: "?df \<noteq> []" by (rule rising_nonempty) simp
  note run = predict_live_stock_trained [OF valid avail period data nonempty tm pf]
  note policy = recommendation_policy [OF run]
  have "recommendation
          \<lparr>resp_symbol = ''ACME'', resp_timeframe = ''1M'', currentPrice = Close (last ?df),
           resp_predictions = pts, modelMetrics = metrics tr,
           resp_trend = analyze_trend ?df ''1M'',
           priceTargets = get_price_targets (Close (last ?df)) ''1M'' (analyze_trend ?df ''1M''),
           recommendation = fst (recommend (analyze_trend ?df ''1M'') (r2 (metrics tr))),
           resp_confidence = snd (recommend (analyze_trend ?df ''1M'') (r2 (metrics tr))),
           predictionPoints = length pts\<rparr> = ''BUY''"
    using policy by (cases "0.5 < r2 (metrics tr)") (simp_all add: trend_rising_50)
  with run show ?thesis
    by (intro exI conjI) (assumption, simp add: trend_rising_50, assumption)
qed

lemma invalid_windows:
  assumes "timeframe \<notin> set valid_timeframes"
  shows "feature_windows timeframe = ([3, 5, 10, 20], 5, 10)"
  using assms by (simp add: feature_windows_def valid_timeframes_def)

lemma invalid_days:
  assumes "timeframe \<notin> set valid_timeframes"
  shows "TIMEFRAME_DAYS timeframe = None"
  using assms by (simp add: TIMEFRAME_DAYS_def valid_timeframes_def)

lemma invalid_prepare_features:
  assumes "timeframe \<notin> set valid_timeframes"
  shows "prepare_features tk df timeframe = prepare_features tk df ''1M''"
proof -
  have w: "feature_windows timeframe = feature_windows ''1M''"
    using assms by (simp add: feature_windows_def valid_timeframes_def)
  have t: "dict_get TIMEFRAME_DAYS timeframe 30 div 30 = dict_get TIMEFRAME_DAYS ''1M'' 30 div 30"
    using assms by (simp add: dict_get_def TIMEFRAME_DAYS_def valid_timeframes_def)
  show ?thesis
    by (simp add: prepare_features_def all_columns_def target_column_def w t)
qed

text \<open>
  Claim C8, as amended. The endpoint \<^verbatim>\<open>predict_live_stock\<close> checks the timeframe: a
  timeframe outside 1M, 6M, 1Y, 5Y is rejected with status 400 before any data is read,
  any feature is computed and any model is trained, and the predictor is unchanged. The
  operations of the engine do not check it and fall back to defaults: \<^verbatim>\<open>prepare_features\<close>
  uses the 1M windows and computes what it computes for 1M, \<^verbatim>\<open>train_model\<close> requires 50
  rows, \<^verbatim>\<open>get_prediction_points\<close> returns 30, \<^verbatim>\<open>get_price_targets\<close> uses 10, 20 and 30
  percent, and \<^verbatim>\<open>analyze_trend\<close> uses the 1M period.
\<close>

theorem timeframe_validation:
  assumes "timeframe \<notin> set valid_timeframes"
  shows "predict_live_stock tk sp s symbol timeframe =
           (Inl (HTTPException 400 ''Timeframe must be 1M, 6M, 1Y, or 5Y''), s)
       \<and> feature_windows timeframe = ([3, 5, 10, 20], 5, 10)
       \<and> prepare_features tk df timeframe = prepare_features tk df ''1M''
       \<and> dict_get min_samples timeframe 50 = 50
       \<and> get_prediction_points timeframe = 30
       \<and> get_price_targets p timeframe trend =
           (let h = (if trend = ''Bearish'' then 1 / 2 else 1 :: real)
            in \<lparr>conservative = p * (1 + h * (10 / 100)), moderate = p * (1 + h * (20 / 100)),
                aggressive = p * (1 + h * (30 / 100)), conservative_pct = h * 10,
                moderate_pct = h * 20, aggressive_pct = h * 30\<rparr>)
       \<and> analyze_trend df timeframe = analyze_trend df ''1M''"
proof -
  have a: "predict_live_stock tk sp s symbol timeframe =
           (Inl (HTTPException 400 ''Timeframe must be 1M, 6M, 1Y, or 5Y''), s)"
    using assms by (simp add: predict_live_stock_def)
  have b: "dict_get min_samples timeframe 50 = 50"
    using assms by (simp add: dict_get_def min_samples_def valid_timeframes_def)
  have c: "get_prediction_points timeframe = 30"
    using assms by (simp add: get_prediction_points_def dict_get_def valid_timeframes_def)
  have d: "get_price_targets p timeframe trend =
           (let h = (if trend = ''Bearish'' then 1 / 2 else 1 :: real)
            in \<lparr>conservative = p * (1 + h * (10 / 100)), moderate = p * (1 + h * (20 / 100)),
                aggressive = p * (1 + h * (30 / 100)), conservative_pct = h * 10,
                moderate_pct = h * 20, aggressive_pct = h * 30\<rparr>)"
    using assms
    by (simp add: get_price_targets_def dict_get_def target_table_def valid_timeframes_def Let_def)
  have e: "analyze_trend df timeframe = analyze_trend df ''1M''"
    using assms by (simp add: analyze_trend_def trend_period_def valid_timeframes_def)
  show ?thesis
    by (intro conjI a b c d e invalid_windows [OF assms] invalid_prepare_features [OF assms])
qed

lemma invalid_2W: "''2W'' \<notin> set valid_timeframes"
  by (simp add: valid_timeframes_def)

theorem timeframe_validation_witness:
  "''2W'' \<notin> set valid_timeframes
   \<and> predict_live_stock baseline_toolkit sample_provider empty_predictor ''ACME'' ''2W'' =
       (Inl (HTTPException 400 ''Timeframe must be 1M, 6M, 1Y, or 5Y''), empty_predictor)
   \<and> get_prediction_points ''2W'' = 30"
  using timeframe_validation [OF invalid_2W, of baseline_toolkit sample_provider empty_predictor "''ACME''"]
    invalid_2W
  by simp

theorem timeframe_validation_counterexample:
  "''2W'' \<notin> set valid_timeframes
   \<and> get_prediction_points ''2W'' = 30
   \<and> get_price_targets 100 ''2W'' ''Bullish'' =
       \<lparr>conservative = 110, moderate = 120, aggressive = 130,
        conservative_pct = 10, moderate_pct = 20, aggressive_pct = 30\<rparr>
   \<and> models (snd (train_model baseline_toolkit empty_predictor (rising_series 70) ''ACME'' ''2W''))
        (model_key ''ACME'' ''2W'') \<noteq> None"
proof -
  have a: "get_prediction_points ''2W'' = 30"
    by (simp add: get_prediction_points_def dict_get_def)
  have b: "get_price_targets 100 ''2W'' ''Bullish'' =
       \<lparr>conservative = 110, moderate = 120, aggressive = 130,
        conservative_pct = 10, moderate_pct = 20, aggressive_pct = 30\<rparr>"
    by (simp add: get_price_targets_def dict_get_def target_table_def)
  have "length (rows (fst (prepare_features baseline_toolkit (rising_series 70) ''2W''))) = 50"
    by (simp add: invalid_prepare_features [OF invalid_2W] rows_rising_1M)
  moreover have "dict_get min_samples ''2W'' 50 = 50"
    by (simp add: dict_get_def min_samples_def)
  ultimately have ge: "\<not> length (rows (fst (prepare_features baseline_toolkit (rising_series 70) ''2W'')))
              < dict_get min_samples ''2W'' 50"
    by simp
  note c = trained_keys(1) [OF ge, of empty_predictor "''ACME''"]
  show ?thesis by (intro conjI invalid_2W a b c)
qed

section \<open>Two series that share their training rows\<close>

lemma closes_rising_map: "map Close (rising_series n) = map (\<lambda>i. 100 + real i) [0..<n]"
  by (simp add: rising_series_def comp_def)

lemma volumes_rising_map: "map Volume (rising_series n) = map (\<lambda>i. 1000) [0..<n]"
  by (simp add: rising_series_def comp_def)

lemma rolling_mean_value:
  assumes "i < n"
  shows "cell_at (rolling_mean w (map f [0..<n])) i =
           (if i + 1 < w then None else Some (sum_list (map f [i + 1 - w..<i + 1]) / real w))"
proof (cases "i + 1 < w")
  case True
  with assms show ?thesis by (simp add: cell_at_def rolling_mean_def)
next
  case False
  then have "take w (drop (i + 1 - w) [0..<n]) = [i + 1 - w..<i + 1]"
    using assms by (simp add: take_upt)
  then have "take w (drop (i + 1 - w) (map f [0..<n])) = map f [i + 1 - w..<i + 1]"
    by (simp only: drop_map take_map)
  with False assms show ?thesis by (simp add: cell_at_def rolling_mean_def del: upt_Suc)
qed

lemma diff_by_value:
  assumes "i < n"
  shows "cell_at (diff_by k (map f [0..<n])) i = (if i < k then None else Some (f i - f (i - k)))"
  using assms by (simp add: cell_at_def diff_by_def less_imp_diff_less)

lemma shift_Some_value:
  assumes "i < n"
  shows "cell_at (shift k (map Some (map f [0..<n]))) i =
           (if 0 \<le> int i - k \<and> int i - k < int n then Some (f (nat (int i - k))) else None)"
proof (cases "0 \<le> int i - k \<and> int i - k < int n")
  case True
  then have "nat (int i - k) < n" by linarith
  with True assms show ?thesis by (simp add: cell_at_shift)
next
  case False
  with assms show ?thesis by (auto simp: cell_at_shift)
qed

lemma pct_value:
  assumes "j < n"
  shows "exact_pct_change (map f [0..<n]) ! j =
           (if j = 0 then None else if f (j - 1) = 0 then None else Some (f j / f (j - 1) - 1))"
  using assms by (simp add: exact_pct_change_def less_imp_diff_less)

lemma shift_pct_value:
  assumes "i < n"
  shows "cell_at (shift k (exact_pct_change (map f [0..<n]))) i =
           (if 0 < int i - k \<and> int i - k < int n \<and> f (nat (int i - k) - 1) \<noteq> 0
            then Some (f (nat (int i - k)) / f (nat (int i - k) - 1) - 1) else None)"
proof (cases "0 \<le> int i - k \<and> int i - k < int n")
  case True
  have len: "length (exact_pct_change (map f [0..<n])) = n"
    by (simp add: exact_pct_change_def)
  have j: "nat (int i - k) < n" using True by linarith
  have "nat (int i - k) = 0 \<longleftrightarrow> \<not> 0 < int i - k" using True by linarith
  with True assms len pct_value [OF j, of f] show ?thesis
    by (auto simp: cell_at_shift)
next
  case False
  have len: "length (exact_pct_change (map f [0..<n])) = n"
    by (simp add: exact_pct_change_def)
  from False assms len show ?thesis by (auto simp: cell_at_shift)
qed

lemma feature_rows_rising:
  assumes "20 \<le> n" and "n < 100"
  shows "map snd (rows (fst (prepare_features baseline_toolkit (rising_series n) ''1M''))) =
           map (\<lambda>i. map (\<lambda>c. the (cell_at (snd c) i))
                      (filter (\<lambda>c. fst c \<notin> set excluded_columns)
                         (all_columns baseline_toolkit (rising_series n) ''1M'')))
             [19..<n - 1]"
  using kept_rising_1M [OF assms] by (simp add: rows_prepare comp_def)

lemma feature_row_prefix:
  assumes "19 \<le> i" and "i < 43"
  shows "map (\<lambda>c. the (cell_at (snd c) i))
           (filter (\<lambda>c. fst c \<notin> set excluded_columns)
              (all_columns baseline_toolkit (rising_series 50) ''1M''))
       = map (\<lambda>c. the (cell_at (snd c) i))
           (filter (\<lambda>c. fst c \<notin> set excluded_columns)
              (all_columns baseline_toolkit (rising_series 51) ''1M''))"
  using assms
  by (simp add: all_columns_def feature_windows_def baseline_toolkit_def exact_indicators_def
      lag_columns_def lags_three length_rising closes_rising_map volumes_rising_map
      excluded_columns_def rolling_mean_value diff_by_value shift_Some_value shift_pct_value
      del: map_map upt_Suc)


lemma training_slices_agree:
  "take 24 (map snd (rows (fst (prepare_features baseline_toolkit (rising_series 50) ''1M''))))
     = take 24 (map snd (rows (fst (prepare_features baseline_toolkit (rising_series 51) ''1M''))))"
proof -
  let ?g = "\<lambda>n i. map (\<lambda>c. the (cell_at (snd c) i))
                 (filter (\<lambda>c. fst c \<notin> set excluded_columns)
                    (all_columns baseline_toolkit (rising_series n) ''1M''))"
  have a: "take 24 [19..<50 - 1] = [19..<43]" by (simp only: take_upt) simp
  have b: "take 24 [19..<51 - 1] = [19..<43]" by (simp only: take_upt) simp
  have r50: "map snd (rows (fst (prepare_features baseline_toolkit (rising_series 50) ''1M'')))
               = map (?g 50) [19..<50 - 1]"
    by (rule feature_rows_rising) simp_all
  have r51: "map snd (rows (fst (prepare_features baseline_toolkit (rising_series 51) ''1M'')))
               = map (?g 51) [19..<51 - 1]"
    by (rule feature_rows_rising) simp_all
  have mid: "map (?g 50) [19..<43] = map (?g 51) [19..<43]"
  proof (rule map_cong [OF refl])
    fix i :: nat assume "i \<in> set [19..<43]"
    then have "19 \<le> i" "i < 43" by (simp_all only: set_upt atLeastLessThan_iff)
    then show "?g 50 i = ?g 51 i" by (rule feature_row_prefix)
  qed
  have "take 24 (map snd (rows (fst (prepare_features baseline_toolkit (rising_series 50) ''1M''))))
          = map (?g 50) (take 24 [19..<50 - 1])"
    by (simp only: r50 take_map)
  also have "\<dots> = map (?g 50) [19..<43]" by (simp only: a)
  also have "\<dots> = map (?g 51) [19..<43]" by (rule mid)
  also have "\<dots> = map (?g 51) (take 24 [19..<51 - 1])" by (simp only: b)
  also have "\<dots> = take 24 (map snd (rows (fst (prepare_features baseline_toolkit (rising_series 51) ''1M''))))"
    by (simp only: r51 take_map)
  finally show ?thesis .
qed

theorem scaler_fit_on_training_slice_witness:
  "dict_get min_samples ''1M'' 50
     \<le> length (rows (fst (prepare_features baseline_toolkit (rising_series 50) ''1M'')))
   \<and> dict_get min_samples ''1M'' 50
     \<le> length (rows (fst (prepare_features baseline_toolkit (rising_series 51) ''1M'')))
   \<and> length (rising_series 50) \<noteq> length (rising_series 51)
   \<and> take (4 * length (rows (fst (prepare_features baseline_toolkit (rising_series 50) ''1M''))) div 5)
        (map snd (rows (fst (prepare_features baseline_toolkit (rising_series 50) ''1M''))))
     = take (4 * length (rows (fst (prepare_features baseline_toolkit (rising_series 51) ''1M''))) div 5)
        (map snd (rows (fst (prepare_features baseline_toolkit (rising_series 51) ''1M''))))
   \<and> scalers (snd (train_model baseline_toolkit empty_predictor (rising_series 50) ''ACME'' ''1M''))
        (model_key ''ACME'' ''1M'')
     = scalers (snd (train_model baseline_toolkit empty_predictor (rising_series 51) ''ACME'' ''1M''))
        (model_key ''ACME'' ''1M'')"
proof -
  have len50: "length (rows (fst (prepare_features baseline_toolkit (rising_series 50) ''1M''))) = 30"
    by (simp add: rows_rising_1M)
  have len51: "length (rows (fst (prepare_features baseline_toolkit (rising_series 51) ''1M''))) = 31"
    by (simp add: rows_rising_1M)
  have h1: "dict_get min_samples ''1M'' 50
     \<le> length (rows (fst (prepare_features baseline_toolkit (rising_series 50) ''1M'')))"
    by (simp add: len50 floor_1M)
  have h2: "dict_get min_samples ''1M'' 50
     \<le> length (rows (fst (prepare_features baseline_toolkit (rising_series 51) ''1M'')))"
    by (simp add: len51 floor_1M)
  have h3: "take (4 * length (rows (fst (prepare_features baseline_toolkit (rising_series 50) ''1M''))) div 5)
        (map snd (rows (fst (prepare_features baseline_toolkit (rising_series 50) ''1M''))))
     = take (4 * length (rows (fst (prepare_features baseline_toolkit (rising_series 51) ''1M''))) div 5)
        (map snd (rows (fst (prepare_features baseline_toolkit (rising_series 51) ''1M''))))"
    using training_slices_agree by (simp add: len50 len51)
  have differ: "length (rising_series 50) \<noteq> length (rising_series 51)"
    by (simp add: length_rising)
  from scaler_fit_on_training_slice [OF h1 h2 h3, of empty_predictor "''ACME''" empty_predictor "''ACME''"]
  have "scalers (snd (train_model baseline_toolkit empty_predictor (rising_series 50) ''ACME'' ''1M''))
        (model_key ''ACME'' ''1M'')
     = scalers (snd (train_model baseline_toolkit empty_predictor (rising_series 51) ''ACME'' ''1M''))
        (model_key ''ACME'' ''1M'')"
    by (rule conjunct1)
  with h1 h2 differ h3 show ?thesis by (intro conjI)
qed

section \<open>Price targets follow the fixed table\<close>

lemma target_table_simps:
  "dict_get target_table ''1M'' d = (0.05, 0.10, 0.15)"
  "dict_get target_table ''6M'' d = (0.15, 0.25, 0.40)"
  "dict_get target_table ''1Y'' d = (0.25, 0.50, 0.75)"
  "dict_get target_table ''5Y'' d = (0.50, 1.00, 2.00)"
  by (simp_all add: dict_get_def target_table_def)

text \<open>
  Claim C6. For every current price, every trend string and each of the four timeframes,
  \<^verbatim>\<open>get_price_targets\<close> returns \<open>currentPrice \<times> (1 + p)\<close> for the three percentages of
  the fixed table (1M: 5/10/15, 6M: 15/25/40, 1Y: 25/50/75, 5Y: 50/100/200 percent), each
  percentage multiplied by one half exactly when the trend is \<open>Bearish\<close>; for 1Y, Bearish
  and a price of 100 the targets are 112.5, 125 and 137.5.
\<close>

theorem price_targets_table:
  "(let h = (if trend = ''Bearish'' then 1 / 2 else 1 :: real) in
         get_price_targets p ''1M'' trend =
           \<lparr>conservative = p * (1 + h * (5 / 100)), moderate = p * (1 + h * (10 / 100)),
            aggressive = p * (1 + h * (15 / 100)), conservative_pct = h * 5,
            moderate_pct = h * 10, aggressive_pct = h * 15\<rparr>
       \<and> get_price_targets p ''6M'' trend =
           \<lparr>conservative = p * (1 + h * (15 / 100)), moderate = p * (1 + h * (25 / 100)),
            aggressive = p * (1 + h * (40 / 100)), conservative_pct = h * 15,
            moderate_pct = h * 25, aggressive_pct = h * 40\<rparr>
       \<and> get_price_targets p ''1Y'' trend =
           \<lparr>conservative = p * (1 + h * (25 / 100)), moderate = p * (1 + h * (50 / 100)),
            aggressive = p * (1 + h * (75 / 100)), conservative_pct = h * 25,
            moderate_pct = h * 50, aggressive_pct = h * 75\<rparr>
       \<and> get_price_targets p ''5Y'' trend =
           \<lparr>conservative = p * (1 + h * (50 / 100)), moderate = p * (1 + h * (100 / 100)),
            aggressive = p * (1 + h * (200 / 100)), conservative_pct = h * 50,
            moderate_pct = h * 100, aggressive_pct = h * 200\<rparr>
       \<and> conservative (get_price_targets 100 ''1Y'' ''Bearish'') = 112.5
       \<and> moderate (get_price_targets 100 ''1Y'' ''Bearish'') = 125
       \<and> aggressive (get_price_targets 100 ''1Y'' ''Bearish'') = 137.5)"
  by (simp add: get_price_targets_def target_table_simps Let_def)

theorem price_targets_table_witness:
  "get_price_targets 100 ''1Y'' ''Bearish'' =
     \<lparr>conservative = 112.5, moderate = 125, aggressive = 137.5,
      conservative_pct = 12.5, moderate_pct = 25, aggressive_pct = 37.5\<rparr>"
  using price_targets_table [of "''Bearish''" 100] by (simp add: Let_def)

section \<open>The trend is never Neutral\<close>

lemma trend_period_le_half: "trend_period n timeframe \<le> n div 2"
  by (simp add: trend_period_def)

text \<open>
  Claim C9. For every input series, the empty one included, and every timeframe string,
  the comparison period of \<^verbatim>\<open>analyze_trend\<close> is at most half the length of the series,
  so the guard "series shorter than the period" is false and the function returns
  \<open>Bullish\<close> or \<open>Bearish\<close>, never \<open>Neutral\<close>.
\<close>

theorem analyze_trend_never_neutral:
  "trend_period (length df) timeframe \<le> length df div 2
   \<and> \<not> length df < trend_period (length df) timeframe
   \<and> (analyze_trend df timeframe = ''Bullish'' \<or> analyze_trend df timeframe = ''Bearish'')
   \<and> analyze_trend df timeframe \<noteq> ''Neutral''"
proof -
  have le: "trend_period (length df) timeframe \<le> length df div 2"
    by (rule trend_period_le_half)
  then have guard: "\<not> length df < trend_period (length df) timeframe"
    by linarith
  have two: "analyze_trend df timeframe = ''Bullish'' \<or> analyze_trend df timeframe = ''Bearish''"
    using guard by (simp add: analyze_trend_def Let_def)
  then have "analyze_trend df timeframe \<noteq> ''Neutral''"
    by auto
  with le guard two show ?thesis by blast
qed

end
